theory Spec2Isabelle
  imports Main "HOL-Library.Sublist" "HOL-Library.Char_ord" "HOL-Library.List_Lexorder"
begin

section \<open>Python text\<close>

text \<open>
  The generator \<^verbatim>\<open>docs/plantuml/generate_docs.py\<close> works on Python \<^verbatim>\<open>str\<close> values.
  A \<^typ>\<open>string\<close> models such a value one \<^typ>\<open>char\<close> per code point, for code points
  below 256; the text the program inspects (diagram names, diagram sources) is taken
  from that range. The few glyphs beyond it that the program only prints or writes,
  and never inspects, are held in named constants as their UTF-8 bytes.
\<close>

definition newline :: char where
  "newline = CHR 0x0A"

text \<open>
  \<^verbatim>\<open>str.isspace\<close> on one character, which is also the class \<^verbatim>\<open>\s\<close> of \<^verbatim>\<open>re\<close> on
  \<^verbatim>\<open>str\<close> patterns: TAB, LF, VT, FF, CR, the separators 0x1C..0x1F, SPACE, NEL (0x85)
  and NBSP (0xA0).
\<close>

definition isspace :: "char \<Rightarrow> bool" where
  "isspace c =
     (let n = (of_char c :: nat)
      in (9 \<le> n \<and> n \<le> 13) \<or> (28 \<le> n \<and> n \<le> 32) \<or> n = 133 \<or> n = 160)"

text \<open>\<^verbatim>\<open>str.strip()\<close>: whitespace removed at both ends.\<close>

definition strip :: "string \<Rightarrow> string" where
  "strip s = rev (dropWhile isspace (rev (dropWhile isspace s)))"

text \<open>
  \<^verbatim>\<open>str.lower()\<close>: in this range the letters A..Z and the accented capitals
  0xC0..0xDE (the multiplication sign 0xD7 apart) move up by 32, everything else stays.
\<close>

definition lower_char :: "char \<Rightarrow> char" where
  "lower_char c =
     (let n = (of_char c :: nat)
      in if (65 \<le> n \<and> n \<le> 90) \<or> (192 \<le> n \<and> n \<le> 222 \<and> n \<noteq> 215)
         then char_of (n + 32) else c)"

definition lower :: "string \<Rightarrow> string" where
  "lower s = map lower_char s"

text \<open>
  \<^verbatim>\<open>str(n)\<close> of a non-negative integer, as the f-strings of \<^verbatim>\<open>main\<close> format
  \<^verbatim>\<open>len(...)\<close>.
\<close>

definition digit_char :: "nat \<Rightarrow> char" where
  "digit_char d = ''0123456789'' ! d"

fun str_nat :: "nat \<Rightarrow> string" where
  "str_nat n = (if n < 10 then [digit_char n] else str_nat (n div 10) @ [digit_char (n mod 10)])"

declare str_nat.simps [simp del]

text \<open>The Python expression \<^verbatim>\<open>sub in s\<close> on strings is \<^const>\<open>sublist\<close>.\<close>

section \<open>Title extractor\<close>

text \<open>
  \<^verbatim>\<open>
  def extract_title_from_puml(puml_content: str) -> str:
      match = re.search(r'title\s+(.+)', puml_content)
      if match:
          return match.group(1).strip()
      return "Untitled Diagram"
  \<close>
  The pattern is the literal \<^verbatim>\<open>title\<close>, then \<^verbatim>\<open>\s+\<close> (one or more whitespace
  characters, greedy), then the group \<^verbatim>\<open>(.+)\<close> (one or more characters other than
  the newline, greedy). The backtracking matcher of \<^verbatim>\<open>re\<close> is written out for this
  pattern.

  \<open>group_after r j\<close>: the text \<open>r\<close> follows the literal and \<^verbatim>\<open>\s+\<close> currently holds
  its first \<open>j\<close> characters. The group takes every character up to the next newline;
  when that is nothing, \<^verbatim>\<open>\s+\<close> gives one character back and the group is tried
  again; \<^verbatim>\<open>\s+\<close> cannot go below one character.
\<close>

fun group_after :: "string \<Rightarrow> nat \<Rightarrow> string option" where
  "group_after r 0 = None"
| "group_after r (Suc j) =
     (case takeWhile (\<lambda>c. c \<noteq> newline) (drop (Suc j) r) of
        [] \<Rightarrow> group_after r j
      | c # cs \<Rightarrow> Some (c # cs))"

text \<open>
  A match attempt at the start of \<open>s\<close>: the literal must be there, and \<^verbatim>\<open>\s+\<close> first
  takes the whole run of whitespace behind it. The result is \<^verbatim>\<open>group(1)\<close>.
\<close>

definition match_here :: "string \<Rightarrow> string option" where
  "match_here s =
     (if prefix ''title'' s
      then (let r = drop 5 s in group_after r (length (takeWhile isspace r)))
      else None)"

text \<open>\<^verbatim>\<open>re.search\<close> tries the start positions from left to right and keeps the first match.\<close>

fun re_search :: "string \<Rightarrow> string option" where
  "re_search [] = match_here []"
| "re_search (c # cs) =
     (case match_here (c # cs) of
        Some g \<Rightarrow> Some g
      | None \<Rightarrow> re_search cs)"

definition extract_title_from_puml :: "string \<Rightarrow> string" where
  "extract_title_from_puml puml_content =
     (case re_search puml_content of
        Some g \<Rightarrow> strip g
      | None \<Rightarrow> ''Untitled Diagram'')"

subsection \<open>The title directive of the specification\<close>

text \<open>
  The title directive in the words of the specification: \<open>directive s pre ws g rest\<close>
  says that the text \<open>s\<close> is \<open>pre\<close>, the word \<^verbatim>\<open>title\<close>, a non-empty run \<open>ws\<close> of
  whitespace, a non-empty text \<open>g\<close> without newline, and \<open>rest\<close>. The text \<open>g\<close> is the
  trailing text of the directive.
\<close>

definition directive :: "string \<Rightarrow> string \<Rightarrow> string \<Rightarrow> string \<Rightarrow> string \<Rightarrow> bool" where
  "directive s pre ws g rest \<longleftrightarrow>
     s = pre @ ''title'' @ ws @ g @ rest \<and> ws \<noteq> [] \<and> list_all isspace ws
     \<and> g \<noteq> [] \<and> newline \<notin> set g"

text \<open>
  The first match is the directive that starts leftmost; among those, the one whose
  whitespace is longest; among those, the one whose trailing text is longest.
\<close>

definition first_match :: "string \<Rightarrow> string \<Rightarrow> string \<Rightarrow> string \<Rightarrow> string \<Rightarrow> bool" where
  "first_match s pre ws g rest \<longleftrightarrow>
     directive s pre ws g rest \<and>
     (\<forall>pre' ws' g' rest'. directive s pre' ws' g' rest' \<longrightarrow>
        length pre < length pre' \<or>
        (length pre' = length pre \<and>
          (length ws' < length ws \<or> (length ws' = length ws \<and> length g' \<le> length g))))"

text \<open>The part of a text before its first newline.\<close>

abbreviation (input) line_of :: "string \<Rightarrow> string" where
  "line_of r \<equiv> takeWhile (\<lambda>c. c \<noteq> newline) r"

section \<open>Diagram metadata\<close>

text \<open>
  An entry of \<^verbatim>\<open>DIAGRAM_DESCRIPTIONS\<close> is a dictionary with the two keys
  \<^verbatim>\<open>"title"\<close> and \<^verbatim>\<open>"description"\<close>. The descriptions are the triple-quoted texts of
  the source, line by line.
\<close>

record metadata =
  title :: string
  description :: string

definition description_backend_architecture :: string where
  "description_backend_architecture =
     ''\<newline>'' @
     ''This diagram illustrates the high-level backend architecture of Senzu AI, showing the main components\<newline>'' @
     ''and their interactions. The system follows a microservices architecture with clear separation of concerns.\<newline>'' @
     ''\<newline>'' @
     ''### Key Components:\<newline>'' @
     ''- **API Gateway**: Entry point for all client requests, handles routing and authentication\<newline>'' @
     ''- **Inference Service**: Orchestrates the prediction workflow\<newline>'' @
     ''- **Feature Service**: Handles feature engineering and storage\<newline>'' @
     ''- **Model Service**: Manages ML model lifecycle and inference\<newline>'' @
     ''- **Data Ingestion Service**: Fetches data from external sports data providers\<newline>'' @
     ''- **Data Layer**: PostgreSQL for relational data, Redis for caching, S3 for data lake storage\<newline>''"

definition description_class_diagram :: string where
  "description_class_diagram =
     ''\<newline>'' @
     ''The domain model defines the core entities and their relationships in the Senzu AI system.\<newline>'' @
     ''This class diagram shows the data structures used throughout the application.\<newline>'' @
     ''\<newline>'' @
     ''### Core Entities:\<newline>'' @
     ''- **User**: System users with authentication\<newline>'' @
     ''- **Sport**: Supported sports (NBA, NFL, etc.)\<newline>'' @
     ''- **Team**: Sports teams with external provider IDs\<newline>'' @
     ''- **Match**: Sporting events with teams, scores, and status\<newline>'' @
     ''- **OddsSnapshot**: Betting odds from various providers at specific timestamps\<newline>'' @
     ''- **FeatureVector**: Computed features for ML inference\<newline>'' @
     ''- **ModelRun**: Trained model versions with metadata\<newline>'' @
     ''- **Prediction**: Probability predictions and expected value calculations\<newline>'' @
     ''- **BacktestResult**: Historical model performance metrics\<newline>''"

definition description_sequence_diagram :: string where
  "description_sequence_diagram =
     ''\<newline>'' @
     ''This sequence diagram shows the high-level flow of a prediction request from a user through the system.\<newline>'' @
     ''It demonstrates how different services collaborate to generate predictions.\<newline>'' @
     ''\<newline>'' @
     ''### Flow Steps:\<newline>'' @
     ''1. Client sends prediction request to API Gateway\<newline>'' @
     ''2. Authentication is verified\<newline>'' @
     ''3. Cache is checked for existing predictions\<newline>'' @
     ''4. If cache miss, Inference Service orchestrates prediction\<newline>'' @
     ''5. Feature Service builds feature vector from match data\<newline>'' @
     ''6. Model Service loads model and runs inference\<newline>'' @
     ''7. Prediction is stored and cached\<newline>'' @
     ''8. Response is returned to client\<newline>'' @
     ''\<newline>'' @
     ''### Performance Optimizations:\<newline>'' @
     ''- Redis caching reduces redundant computations\<newline>'' @
     ''- Feature vectors are reused across predictions\<newline>'' @
     ''- Models are kept warm in memory\<newline>''"

definition description_deployment_diagram :: string where
  "description_deployment_diagram =
     ''\<newline>'' @
     ''The deployment diagram shows how the Senzu AI system is deployed in a cloud environment\<newline>'' @
     ''(AWS/GCP) with infrastructure components and their relationships.\<newline>'' @
     ''\<newline>'' @
     ''### Infrastructure Components:\<newline>'' @
     ''- **API / Web Layer**: API Gateway and Auth Service (containerized)\<newline>'' @
     ''- **Backend Services**: Inference, Feature, Model, and Ingestion services (containerized)\<newline>'' @
     ''- **Persistence & Cache**: PostgreSQL RDS, S3 Data Lake, Redis Cache\<newline>'' @
     ''- **ML Pipeline**: Airflow/Prefect for orchestration, MLflow for model registry\<newline>'' @
     ''\<newline>'' @
     ''### Scalability Considerations:\<newline>'' @
     ''- Services are containerized for easy scaling\<newline>'' @
     ''- Database uses RDS for managed operations\<newline>'' @
     ''- S3 provides unlimited storage for historical data\<newline>'' @
     ''- Redis cache improves read performance\<newline>''"

definition description_database_schema :: string where
  "description_database_schema =
     ''\<newline>'' @
     ''The database schema defines all tables, columns, relationships, and indexes used in the PostgreSQL database.\<newline>'' @
     ''This ER diagram provides a comprehensive view of data storage and relationships.\<newline>'' @
     ''\<newline>'' @
     ''### Schema Organization:\<newline>'' @
     ''- **User & Auth**: User authentication and refresh tokens\<newline>'' @
     ''- **Sports Domain**: Sports, teams, and matches\<newline>'' @
     ''- **Odds Data**: Time-series odds snapshots (partitioned by month)\<newline>'' @
     ''- **Feature Store**: Computed feature vectors with versioning\<newline>'' @
     ''- **Model Management**: Model metadata, evaluations, and backtests\<newline>'' @
     ''- **Predictions**: Prediction results (partitioned by month)\<newline>'' @
     ''- **Data Ingestion Tracking**: Job status and error logging\<newline>'' @
     ''\<newline>'' @
     ''### Performance Optimizations:\<newline>'' @
     ''- Strategic indexing on frequently queried columns\<newline>'' @
     ''- Partitioning for large tables (odds_snapshots, predictions)\<newline>'' @
     ''- JSONB columns for flexible metadata storage\<newline>''"

definition description_service_interfaces :: string where
  "description_service_interfaces =
     ''\<newline>'' @
     ''This diagram defines the interfaces (contracts) for all services in the system. It shows\<newline>'' @
     ''the methods each service exposes and the data transfer objects (DTOs) they use.\<newline>'' @
     ''\<newline>'' @
     ''### Service Interfaces:\<newline>'' @
     ''- **IAuthService**: User authentication and token management\<newline>'' @
     ''- **IInferenceService**: Prediction orchestration and EV calculation\<newline>'' @
     ''- **IFeatureService**: Feature engineering and validation\<newline>'' @
     ''- **IModelService**: Model loading, inference, and evaluation\<newline>'' @
     ''- **IDataIngestionService**: External data fetching and validation\<newline>'' @
     ''- **Repository Interfaces**: Data access for matches, odds, predictions, features\<newline>'' @
     ''- **ICacheService**: Caching operations with pattern invalidation\<newline>'' @
     ''\<newline>'' @
     ''### Design Principles:\<newline>'' @
     ''- Clear separation of concerns\<newline>'' @
     ''- Dependency injection friendly\<newline>'' @
     ''- Testable interfaces\<newline>'' @
     ''- Comprehensive type definitions\<newline>''"

definition description_prediction_flow_detailed :: string where
  "description_prediction_flow_detailed =
     ''\<newline>'' @
     ''This comprehensive sequence diagram details the complete prediction flow from authentication\<newline>'' @
     ''through feature building, model inference, EV calculation, and caching.\<newline>'' @
     ''\<newline>'' @
     ''### Detailed Steps:\<newline>'' @
     ''1. **Authentication Phase**: Token verification\<newline>'' @
     ''2. **Cache Check**: Redis lookup for existing predictions\<newline>'' @
     ''3. **Feature Building**:\<newline>'' @
     ''   - Fetch match and team data\<newline>'' @
     ''   - Retrieve historical matches\<newline>'' @
     ''   - Compute form, H2H, and odds features\<newline>'' @
     ''   - Validate and store feature vector\<newline>'' @
     ''4. **Model Inference**:\<newline>'' @
     ''   - Load active model from cache or S3\<newline>'' @
     ''   - Run inference on feature vector\<newline>'' @
     ''   - Calculate confidence intervals\<newline>'' @
     ''5. **EV Calculation**: Compute expected value from probabilities and odds\<newline>'' @
     ''6. **Persistence**: Store predictions in database\<newline>'' @
     ''7. **Caching**: Cache results in Redis\<newline>'' @
     ''8. **Monitoring**: Log metrics and latency\<newline>'' @
     ''\<newline>'' @
     ''### Performance Metrics:\<newline>'' @
     ''- Feature building: ~200-500ms\<newline>'' @
     ''- Model inference: ~50-100ms\<newline>'' @
     ''- Total latency: ~300-700ms (cache miss)\<newline>'' @
     ''- Cache hit: ~10-20ms\<newline>''"

definition description_model_deployment_flow :: string where
  "description_model_deployment_flow =
     ''\<newline>'' @
     ''This sequence diagram shows the end-to-end flow of training a new model and deploying it to production.\<newline>'' @
     ''\<newline>'' @
     ''### Training Pipeline Steps:\<newline>'' @
     ''1. **Data Preparation**: Export features and labels from feature store and data lake\<newline>'' @
     ''2. **Data Splitting**: Time-based split (train/validation/test)\<newline>'' @
     ''3. **Model Training**: Train with hyperparameters, early stopping, metric tracking\<newline>'' @
     ''4. **Model Evaluation**: Calculate accuracy, log loss, Brier score, calibration\<newline>'' @
     ''5. **Backtesting**: Simulate betting strategy to compute ROI and Sharpe ratio\<newline>'' @
     ''6. **Model Registration**: Save artifact to S3, register in MLflow and database\<newline>'' @
     ''\<newline>'' @
     ''### Deployment Steps:\<newline>'' @
     ''1. **Model Review**: ML engineer reviews metrics and performance\<newline>'' @
     ''2. **Model Activation**: Atomically switch active model in database\<newline>'' @
     ''3. **Cache Invalidation**: Clear cached models and predictions\<newline>'' @
     ''4. **Model Warming**: Pre-load new model into memory/cache\<newline>'' @
     ''5. **Monitoring Setup**: Configure drift detection and performance tracking\<newline>'' @
     ''\<newline>'' @
     ''### Safety Measures:\<newline>'' @
     ''- Transaction-based activation prevents inconsistencies\<newline>'' @
     ''- Rollback procedure documented\<newline>'' @
     ''- Continuous monitoring for performance degradation\<newline>''"

definition description_ingestion_sequence :: string where
  "description_ingestion_sequence =
     ''\<newline>'' @
     ''This sequence diagram illustrates the complete data ingestion process, from fetching data\<newline>'' @
     ''from external providers to storing it in the database and triggering downstream processes.\<newline>'' @
     ''\<newline>'' @
     ''### Ingestion Steps:\<newline>'' @
     ''1. **Job Initialization**: Create job record, initialize API client\<newline>'' @
     ''2. **Fetch Match Schedule**: GET request to provider API with retry logic\<newline>'' @
     ''3. **Fetch Odds Data**: Retrieve current odds for all markets\<newline>'' @
     ''4. **Data Validation**: Schema validation, duplicate detection\<newline>'' @
     ''5. **Data Transformation**: Map external IDs, convert formats, standardize names\<newline>'' @
     ''6. **Team Management**: Create new teams if not found\<newline>'' @
     ''7. **Upsert Matches**: Insert new matches or update existing ones\<newline>'' @
     ''8. **Bulk Insert Odds**: Batch insert odds snapshots for performance\<newline>'' @
     ''9. **Cache Invalidation**: Clear prediction caches for updated matches\<newline>'' @
     ''10. **Trigger Feature Computation**: Queue async jobs for new/updated matches\<newline>'' @
     ''11. **Job Completion**: Update job status and log metrics\<newline>'' @
     ''\<newline>'' @
     ''### Error Handling:\<newline>'' @
     ''- Exponential backoff for retryable errors (500, 502, 503, 429)\<newline>'' @
     ''- Skip invalid records and continue with valid ones\<newline>'' @
     ''- Transaction rollback on fatal errors\<newline>'' @
     ''- Alert on job failures\<newline>''"

definition description_feature_pipeline :: string where
  "description_feature_pipeline =
     ''\<newline>'' @
     ''This activity diagram shows the feature engineering pipeline, which transforms raw match\<newline>'' @
     ''and odds data into feature vectors suitable for ML inference.\<newline>'' @
     ''\<newline>'' @
     ''### Feature Categories:\<newline>'' @
     ''1. **Team Form Features**: Win rates, points per game, momentum, home/away splits\<newline>'' @
     ''2. **Head-to-Head Features**: Historical matchup statistics and trends\<newline>'' @
     ''3. **Market Odds Features**: Implied probabilities, odds movement, market consensus\<newline>'' @
     ''4. **Contextual Features**: Rest days, season progress, time of day, home advantage\<newline>'' @
     ''5. **Statistical Features**: Expected goals (xG), possession, shot efficiency\<newline>'' @
     ''\<newline>'' @
     ''### Pipeline Phases:\<newline>'' @
     ''1. **Data Retrieval**: Fetch match, team, odds, and historical data\<newline>'' @
     ''2. **Feature Computation**: Parallel computation of feature categories\<newline>'' @
     ''3. **Aggregation**: Combine all features into single vector\<newline>'' @
     ''4. **Transformation**: Normalize, scale, encode, handle missing values\<newline>'' @
     ''5. **Validation**: Check for NaN/Inf, validate ranges and schema\<newline>'' @
     ''6. **Storage**: Save to database and cache in Redis\<newline>'' @
     ''7. **Export**: Queue for S3 data lake export (for training)\<newline>'' @
     ''\<newline>'' @
     ''### Performance:\<newline>'' @
     ''- Parallel feature computation reduces latency\<newline>'' @
     ''- Caching prevents redundant calculations\<newline>'' @
     ''- Typical computation time: 200-500ms\<newline>''"

definition description_data_ingestion_workflow :: string where
  "description_data_ingestion_workflow =
     ''\<newline>'' @
     ''This activity diagram provides an overview of the data ingestion workflow, showing decision\<newline>'' @
     ''points, error handling, and post-processing actions.\<newline>'' @
     ''\<newline>'' @
     ''### Workflow Phases:\<newline>'' @
     ''1. **Data Fetching**: Call external provider APIs with authentication and rate limiting\<newline>'' @
     ''2. **Data Validation**: Schema validation, duplicate detection, error filtering\<newline>'' @
     ''3. **Data Transformation**: Map to internal schema, enrich with metadata\<newline>'' @
     ''4. **Data Persistence**: Transactional upsert of matches and bulk insert of odds\<newline>'' @
     ''5. **Post-Processing**: Feature computation triggering, cache invalidation, metrics tracking\<newline>'' @
     ''\<newline>'' @
     ''### Error Handling Strategy:\<newline>'' @
     ''- **Retryable Errors**: Network timeouts, rate limits (429), server errors (500/502/503)\<newline>'' @
     ''- **Non-Retryable Errors**: Authentication failures (401), bad requests (400)\<newline>'' @
     ''- **Partial Failures**: Continue with valid records, log invalid records separately\<newline>'' @
     ''\<newline>'' @
     ''### Trigger Sources:\<newline>'' @
     ''- Scheduled cron jobs (every 5 minutes)\<newline>'' @
     ''- Manual API triggers\<newline>'' @
     ''- Webhooks from providers\<newline>'' @
     ''- Event-driven (match status changes)\<newline>'' @
     ''\<newline>'' @
     ''### Performance Considerations:\<newline>'' @
     ''- Bulk operations reduce database round trips\<newline>'' @
     ''- Batch size typically 1000 records per insert\<newline>'' @
     ''- Transaction management ensures data consistency\<newline>''"

definition DIAGRAM_DESCRIPTIONS :: "(string \<times> metadata) list" where
  "DIAGRAM_DESCRIPTIONS =
    [(''senzu-ai-backend-architecture'', \<lparr>title = ''Backend Architecture'', description = description_backend_architecture\<rparr>),
     (''senzu-ai-class-diagram'', \<lparr>title = ''Domain Model'', description = description_class_diagram\<rparr>),
     (''senzu-ai-sequence-diagram'', \<lparr>title = ''Prediction Request Flow'', description = description_sequence_diagram\<rparr>),
     (''senzu-ai-deployment-diagram'', \<lparr>title = ''Deployment Architecture'', description = description_deployment_diagram\<rparr>),
     (''senzu-ai-database-schema'', \<lparr>title = ''Database Schema (ER Diagram)'', description = description_database_schema\<rparr>),
     (''senzu-ai-service-interfaces'', \<lparr>title = ''Service Interface Definitions'', description = description_service_interfaces\<rparr>),
     (''senzu-ai-prediction-flow-detailed'', \<lparr>title = ''Detailed Prediction Request Flow'', description = description_prediction_flow_detailed\<rparr>),
     (''senzu-ai-model-deployment-flow'', \<lparr>title = ''Model Training & Deployment Flow'', description = description_model_deployment_flow\<rparr>),
     (''senzu-ai-ingestion-sequence'', \<lparr>title = ''Data Ingestion Sequence (Scheduled Job)'', description = description_ingestion_sequence\<rparr>),
     (''senzu-ai-feature-pipeline'', \<lparr>title = ''Feature Engineering Pipeline'', description = description_feature_pipeline\<rparr>),
     (''senzu-ai-data-ingestion-workflow'', \<lparr>title = ''Data Ingestion Workflow'', description = description_data_ingestion_workflow\<rparr>)]"

text \<open>
  The two statements of \<^verbatim>\<open>main\<close> that resolve the metadata of one diagram:
  \<^verbatim>\<open>
  extracted_title = extract_title_from_puml(puml_content)
  metadata = DIAGRAM_DESCRIPTIONS.get(diagram_name, {
      "title": extracted_title,
      "description": f"Documentation for {extracted_title}."
  })
  \<close>
\<close>

definition resolve_metadata :: "string \<Rightarrow> string \<Rightarrow> metadata" where
  "resolve_metadata diagram_name puml_content =
     (let extracted_title = extract_title_from_puml puml_content
      in case map_of DIAGRAM_DESCRIPTIONS diagram_name of
           Some m \<Rightarrow> m
         | None \<Rightarrow> \<lparr>title = extracted_title,
                     description = ''Documentation for '' @ extracted_title @ ''.''\<rparr>)"


section \<open>Paths, exceptions and the environment\<close>

text \<open>
  A \<^verbatim>\<open>pathlib.Path\<close> is modelled by the list of the components of its absolute,
  normalised form (the three directories of the script all hang below
  \<^verbatim>\<open>Path(__file__).parent\<close>). On such paths \<^verbatim>\<open>absolute()\<close> changes nothing.
\<close>

type_synonym path = "string list"

definition path_str :: "path \<Rightarrow> string" where
  "path_str p = (if p = [] then ''/'' else concat (map (\<lambda>c. ''/'' @ c) p))"

definition path_name :: "path \<Rightarrow> string" where
  "path_name p = (if p = [] then [] else last p)"

definition absolute :: "path \<Rightarrow> path" where
  "absolute p = p"

text \<open>\<^verbatim>\<open>directory / "file"\<close> with a single file name on the right.\<close>

definition joinpath :: "path \<Rightarrow> string \<Rightarrow> path" where
  "joinpath p c = p @ [c]"

text \<open>
  \<^verbatim>\<open>Path.stem\<close>: with \<^verbatim>\<open>i = name.rfind('.')\<close>, the name up to \<open>i\<close> when
  \<^verbatim>\<open>0 < i < len(name) - 1\<close>, the whole name otherwise.
\<close>

definition rfind_dot :: "string \<Rightarrow> nat option" where
  "rfind_dot s =
     (if CHR ''.'' \<in> set s
      then Some (length s - 1 - length (takeWhile (\<lambda>c. c \<noteq> CHR ''.'') (rev s)))
      else None)"

definition stem :: "path \<Rightarrow> string" where
  "stem p =
     (let n = path_name p
      in case rfind_dot n of
           None \<Rightarrow> n
         | Some i \<Rightarrow> if 0 < i \<and> i < length n - 1 then take i n else n)"

text \<open>
  \<^verbatim>\<open>os.path.relpath(path, start)\<close>: one \<^verbatim>\<open>..\<close> for each component of \<open>start\<close> below
  the common prefix, then the rest of \<open>path\<close>, joined by \<^verbatim>\<open>/\<close>; \<^verbatim>\<open>.\<close> when nothing is left.
\<close>

fun join_sep :: "string list \<Rightarrow> string" where
  "join_sep [] = []"
| "join_sep [c] = c"
| "join_sep (c # d # cs) = c @ ''/'' @ join_sep (d # cs)"

definition relpath :: "path \<Rightarrow> path \<Rightarrow> string" where
  "relpath p start =
     (let i = length (longest_common_prefix start p);
          rel_list = replicate (length start - i) ''..'' @ drop i p
      in if rel_list = [] then ''.'' else join_sep rel_list)"

text \<open>
  Exceptions are values. The script raises \<^verbatim>\<open>RuntimeError\<close> and
  \<^verbatim>\<open>FileNotFoundError\<close> itself; the environment may raise any other subclass of
  \<^verbatim>\<open>Exception\<close>, kept with its class name and message. \<open>exn_str\<close> is \<^verbatim>\<open>str(e)\<close>.
\<close>

datatype exn =
    RuntimeError string
  | FileNotFoundError string
  | OtherException string string

fun exn_str :: "exn \<Rightarrow> string" where
  "exn_str (RuntimeError m) = m"
| "exn_str (FileNotFoundError m) = m"
| "exn_str (OtherException c m) = m"

text \<open>The \<^verbatim>\<open>CompletedProcess\<close> of \<^verbatim>\<open>subprocess.run(cmd, capture_output=True, text=True)\<close>.\<close>

record completed_process =
  returncode :: int
  stdout :: string
  stderr :: string

text \<open>
  The file system and the renderer are outside the program. A value of \<open>'w os\<close> says
  what each call does to the outside world \<open>'w\<close>: whether it raises, what it returns
  and which world it leaves.
  \<^item> \<open>os_mkdir d\<close> is \<^verbatim>\<open>d.mkdir(parents=True, exist_ok=True)\<close>;
  \<^item> \<open>subprocess_run cmd\<close> is \<^verbatim>\<open>subprocess.run(cmd, capture_output=True, text=True)\<close>;
  \<^item> \<open>path_exists p\<close> is \<^verbatim>\<open>p.exists()\<close>;
  \<^item> \<open>write_text p s\<close> is \<^verbatim>\<open>p.write_text(s)\<close>, \<open>read_text p\<close> is \<^verbatim>\<open>p.read_text()\<close>;
  \<^item> \<open>glob_puml d\<close> is \<^verbatim>\<open>d.glob("*.puml")\<close>.
\<close>

record 'w os =
  os_mkdir :: "path \<Rightarrow> 'w \<Rightarrow> exn option \<times> 'w"
  subprocess_run :: "string list \<Rightarrow> 'w \<Rightarrow> (exn + completed_process) \<times> 'w"
  path_exists :: "path \<Rightarrow> 'w \<Rightarrow> bool"
  write_text :: "path \<Rightarrow> string \<Rightarrow> 'w \<Rightarrow> exn option \<times> 'w"
  read_text :: "path \<Rightarrow> 'w \<Rightarrow> exn + string"
  glob_puml :: "path \<Rightarrow> 'w \<Rightarrow> path list"

text \<open>
  The configuration, with \<open>here\<close> for \<^verbatim>\<open>Path(__file__).parent\<close>.
\<close>

definition PUML_DIR :: "path \<Rightarrow> path" where
  "PUML_DIR here = joinpath here ''puml''"

definition OUTPUT_IMG_DIR :: "path \<Rightarrow> path" where
  "OUTPUT_IMG_DIR here = joinpath here ''images''"

definition OUTPUT_MD_DIR :: "path \<Rightarrow> path" where
  "OUTPUT_MD_DIR here = joinpath here ''md''"

section \<open>Renderer invocation\<close>

text \<open>
  \<^verbatim>\<open>
  def generate_png_from_puml(puml_file: Path, output_dir: Path) -> Path:
      output_dir.mkdir(parents=True, exist_ok=True)
      cmd = ["plantuml", "-tpng", "-o", str(output_dir.absolute()), str(puml_file.absolute())]
      result = subprocess.run(cmd, capture_output=True, text=True)
      if result.returncode != 0:
          raise RuntimeError(f"PlantUML conversion failed: {result.stderr}")
      png_file = output_dir / f"{puml_file.stem}.png"
      if not png_file.exists():
          raise FileNotFoundError(f"Expected PNG file not created: {png_file}")
      return png_file
  \<close>
\<close>

definition plantuml_cmd :: "path \<Rightarrow> path \<Rightarrow> string list" where
  "plantuml_cmd puml_file output_dir =
     [''plantuml'', ''-tpng'', ''-o'', path_str (absolute output_dir), path_str (absolute puml_file)]"

text \<open>The file the renderer is expected to leave: \<^verbatim>\<open>output_dir / f"{puml_file.stem}.png"\<close>.\<close>

definition png_file_of :: "path \<Rightarrow> path \<Rightarrow> path" where
  "png_file_of puml_file output_dir = joinpath output_dir (stem puml_file @ ''.png'')"

definition generate_png_from_puml :: "'w os \<Rightarrow> path \<Rightarrow> path \<Rightarrow> 'w \<Rightarrow> (exn + path) \<times> 'w" where
  "generate_png_from_puml os puml_file output_dir w =
     (case os_mkdir os output_dir w of
        (Some e, w1) \<Rightarrow> (Inl e, w1)
      | (None, w1) \<Rightarrow>
          (case subprocess_run os (plantuml_cmd puml_file output_dir) w1 of
             (Inl e, w2) \<Rightarrow> (Inl e, w2)
           | (Inr result, w2) \<Rightarrow>
               if returncode result \<noteq> 0
               then (Inl (RuntimeError (''PlantUML conversion failed: '' @ stderr result)), w2)
               else
                 (let png_file = png_file_of puml_file output_dir
                  in if \<not> path_exists os png_file w2
                     then (Inl (FileNotFoundError
                                  (''Expected PNG file not created: '' @ path_str png_file)), w2)
                     else (Inr png_file, w2))))"

section \<open>Page composer\<close>

text \<open>
  The text of a page is built in three pieces. The head is the f-string
  \<^verbatim>\<open>
  f"""# {title}

  {description.strip()}

  ## Diagram

  ![{title}]({rel_img_path})

  ## Related Diagrams

  """
  \<close>
\<close>

definition page_head :: "string \<Rightarrow> string \<Rightarrow> string \<Rightarrow> string" where
  "page_head title' description' rel_img_path =
     ''# '' @ title' @ ''\<newline>'' @
     ''\<newline>'' @
     strip description' @ ''\<newline>'' @
     ''\<newline>'' @
     ''## Diagram\<newline>'' @
     ''\<newline>'' @
     ''!['' @ title' @ '']('' @ rel_img_path @ '')\<newline>'' @
     ''\<newline>'' @
     ''## Related Diagrams\<newline>'' @
     ''\<newline>''"

text \<open>
  The links are chosen by the \<^verbatim>\<open>if\<close>/\<^verbatim>\<open>elif\<close> chain on the lowered name:
  \<^verbatim>\<open>
  if "architecture" in diagram_name.lower():
      markdown_content += "- [Domain Model](./senzu-ai-class-diagram.md)\n"
      markdown_content += "- [Deployment Architecture](./senzu-ai-deployment-diagram.md)\n"
      markdown_content += "- [Database Schema](./senzu-ai-database-schema.md)\n"
  elif "sequence" in diagram_name.lower() or "flow" in diagram_name.lower():
      markdown_content += "- [Backend Architecture](./senzu-ai-backend-architecture.md)\n"
      markdown_content += "- [Service Interfaces](./senzu-ai-service-interfaces.md)\n"
  elif "class" in diagram_name.lower():
      markdown_content += "- [Database Schema](./senzu-ai-database-schema.md)\n"
      markdown_content += "- [Service Interfaces](./senzu-ai-service-interfaces.md)\n"
  \<close>
\<close>

definition architecture_links :: string where
  "architecture_links =
     ''- [Domain Model](./senzu-ai-class-diagram.md)\<newline>'' @
     ''- [Deployment Architecture](./senzu-ai-deployment-diagram.md)\<newline>'' @
     ''- [Database Schema](./senzu-ai-database-schema.md)\<newline>''"

definition flow_links :: string where
  "flow_links =
     ''- [Backend Architecture](./senzu-ai-backend-architecture.md)\<newline>'' @
     ''- [Service Interfaces](./senzu-ai-service-interfaces.md)\<newline>''"

definition class_links :: string where
  "class_links =
     ''- [Database Schema](./senzu-ai-database-schema.md)\<newline>'' @
     ''- [Service Interfaces](./senzu-ai-service-interfaces.md)\<newline>''"

definition related_diagrams :: "string \<Rightarrow> string" where
  "related_diagrams diagram_name =
     (if sublist ''architecture'' (lower diagram_name) then architecture_links
      else if sublist ''sequence'' (lower diagram_name) \<or> sublist ''flow'' (lower diagram_name)
      then flow_links
      else if sublist ''class'' (lower diagram_name) then class_links
      else [])"

text \<open>
  The foot is a plain template filled by \<^verbatim>\<open>.format(diagram_name=diagram_name)\<close>.
\<close>

definition page_foot :: "string \<Rightarrow> string" where
  "page_foot diagram_name =
     ''\<newline>'' @
     ''## Source\<newline>'' @
     ''\<newline>'' @
     ''This documentation was automatically generated from PlantUML diagrams.\<newline>'' @
     ''\<newline>'' @
     ''- Source file: [`../puml/'' @ diagram_name @ ''.puml`](../puml/'' @ diagram_name @ ''.puml)\<newline>'' @
     ''- Image: [`../images/'' @ diagram_name @ ''.png`](../images/'' @ diagram_name @ ''.png)\<newline>'' @
     ''\<newline>'' @
     ''## Navigation\<newline>'' @
     ''\<newline>'' @
     ''Return to [Documentation Index](./README.md)\<newline>''"

definition markdown_content :: "string \<Rightarrow> path \<Rightarrow> string \<Rightarrow> string \<Rightarrow> path \<Rightarrow> string" where
  "markdown_content diagram_name png_path title' description' output_dir =
     page_head title' description' (relpath png_path output_dir)
     @ related_diagrams diagram_name
     @ page_foot diagram_name"

text \<open>
  \<^verbatim>\<open>generate_markdown_doc\<close>: make the directory, build the text, write it to
  \<^verbatim>\<open>output_dir / f"{diagram_name}.md"\<close>, return that path.
\<close>

definition generate_markdown_doc ::
  "'w os \<Rightarrow> string \<Rightarrow> path \<Rightarrow> string \<Rightarrow> string \<Rightarrow> path \<Rightarrow> 'w \<Rightarrow> (exn + path) \<times> 'w" where
  "generate_markdown_doc os diagram_name png_path title' description' output_dir w =
     (case os_mkdir os output_dir w of
        (Some e, w1) \<Rightarrow> (Inl e, w1)
      | (None, w1) \<Rightarrow>
          (let md_file = joinpath output_dir (diagram_name @ ''.md'')
           in case write_text os md_file
                     (markdown_content diagram_name png_path title' description' output_dir) w1 of
                (Some e, w2) \<Rightarrow> (Inl e, w2)
              | (None, w2) \<Rightarrow> (Inr md_file, w2)))"

section \<open>Index composer\<close>

text \<open>
  The index is one triple-quoted literal. Its directory sketch uses three box-drawing
  glyphs (U+251C, U+2500, U+2514).
\<close>

definition BOX_TEE :: string where
  "BOX_TEE = [CHR 0xE2, CHR 0x94, CHR 0x9C]"

definition BOX_DASH :: string where
  "BOX_DASH = [CHR 0xE2, CHR 0x94, CHR 0x80]"

definition BOX_ELBOW :: string where
  "BOX_ELBOW = [CHR 0xE2, CHR 0x94, CHR 0x94]"

definition index_content :: string where
  "index_content =
     ''# Senzu AI Architecture Documentation\<newline>'' @
     ''\<newline>'' @
     ''This directory contains automatically generated documentation from PlantUML diagrams.\<newline>'' @
     ''Each document includes a rendered diagram image and detailed descriptions of the components and flows.\<newline>'' @
     ''\<newline>'' @
     ''## Architecture Diagrams\<newline>'' @
     ''\<newline>'' @
     ''### System Overview\<newline>'' @
     ''- [Backend Architecture](./senzu-ai-backend-architecture.md) - High-level system architecture and component interactions\<newline>'' @
     ''- [Deployment Architecture](./senzu-ai-deployment-diagram.md) - Cloud deployment and infrastructure components\<newline>'' @
     ''\<newline>'' @
     ''### Data Models\<newline>'' @
     ''- [Domain Model](./senzu-ai-class-diagram.md) - Core entities and their relationships\<newline>'' @
     ''- [Database Schema](./senzu-ai-database-schema.md) - Complete database schema with tables, indexes, and partitioning\<newline>'' @
     ''- [Service Interfaces](./senzu-ai-service-interfaces.md) - Service contracts and DTOs\<newline>'' @
     ''\<newline>'' @
     ''### Process Flows\<newline>'' @
     ''- [Prediction Request Flow](./senzu-ai-sequence-diagram.md) - High-level prediction flow\<newline>'' @
     ''- [Detailed Prediction Flow](./senzu-ai-prediction-flow-detailed.md) - Comprehensive prediction workflow with all steps\<newline>'' @
     ''- [Data Ingestion Sequence](./senzu-ai-ingestion-sequence.md) - Data ingestion from external providers\<newline>'' @
     ''- [Data Ingestion Workflow](./senzu-ai-data-ingestion-workflow.md) - Ingestion workflow with decision points\<newline>'' @
     ''\<newline>'' @
     ''### ML & Features\<newline>'' @
     ''- [Feature Engineering Pipeline](./senzu-ai-feature-pipeline.md) - Feature computation and transformation flow\<newline>'' @
     ''- [Model Training & Deployment](./senzu-ai-model-deployment-flow.md) - End-to-end ML model lifecycle\<newline>'' @
     ''\<newline>'' @
     ''## About\<newline>'' @
     ''\<newline>'' @
     ''These diagrams provide a comprehensive view of the Senzu AI sports prediction system, covering:\<newline>'' @
     ''- System architecture and components\<newline>'' @
     ''- Data models and database design\<newline>'' @
     ''- API workflows and service interactions\<newline>'' @
     ''- ML pipeline and feature engineering\<newline>'' @
     ''- Data ingestion and processing\<newline>'' @
     ''\<newline>'' @
     ''### Regenerating Documentation\<newline>'' @
     ''\<newline>'' @
     ''To regenerate this documentation from PlantUML source files:\<newline>'' @
     ''\<newline>'' @
     ''```bash\<newline>'' @
     ''cd docs/plantuml\<newline>'' @
     ''python generate_docs.py\<newline>'' @
     ''```\<newline>'' @
     ''\<newline>'' @
     ''### Project Structure\<newline>'' @
     ''\<newline>'' @
     ''```\<newline>'' @
     ''docs/plantuml/\<newline>'' @
     BOX_TEE @ BOX_DASH @ BOX_DASH @ '' puml/              # PlantUML source files (.puml)\<newline>'' @
     BOX_TEE @ BOX_DASH @ BOX_DASH @ '' images/            # Generated PNG images\<newline>'' @
     BOX_TEE @ BOX_DASH @ BOX_DASH @ '' md/                # Generated Markdown documentation\<newline>'' @
     BOX_TEE @ BOX_DASH @ BOX_DASH @ '' generate_docs.py   # Documentation generator script\<newline>'' @
     BOX_ELBOW @ BOX_DASH @ BOX_DASH @ '' README.md          # This file\<newline>'' @
     ''```\<newline>'' @
     ''\<newline>'' @
     ''## Navigation\<newline>'' @
     ''\<newline>'' @
     ''- [Project README](../../README.md)\<newline>'' @
     ''- [Claude AI Instructions](../CLAUDE.md)\<newline>''"

text \<open>
  \<^verbatim>\<open>
  def generate_index(md_files: List[Tuple[str, str]], output_dir: Path) -> Path:
      markdown_content = """..."""
      index_file = output_dir / "README.md"
      index_file.write_text(markdown_content)
      return index_file
  \<close>
\<close>

definition generate_index ::
  "'w os \<Rightarrow> (string \<times> string) list \<Rightarrow> path \<Rightarrow> 'w \<Rightarrow> (exn + path) \<times> 'w" where
  "generate_index os md_files output_dir w =
     (let index_file = joinpath output_dir ''README.md''
      in case write_text os index_file index_content w of
           (Some e, w1) \<Rightarrow> (Inl e, w1)
         | (None, w1) \<Rightarrow> (Inr index_file, w1))"

section \<open>Orchestrator\<close>

text \<open>
  \<^verbatim>\<open>print\<close> appends one line to the program's output. Three glyphs of the progress
  lines lie beyond the modelled range: the arrow U+2192, the check mark U+2713 and the
  ballot cross U+2717.
\<close>

definition ARROW :: string where
  "ARROW = [CHR 0xE2, CHR 0x86, CHR 0x92]"

definition CHECK :: string where
  "CHECK = [CHR 0xE2, CHR 0x9C, CHR 0x93]"

definition CROSS :: string where
  "CROSS = [CHR 0xE2, CHR 0x9C, CHR 0x97]"

definition error_line :: "exn \<Rightarrow> string" where
  "error_line e = ''  '' @ CROSS @ '' Error: '' @ exn_str e"

text \<open>
  One pass through the body of the \<^verbatim>\<open>for\<close> loop of \<^verbatim>\<open>main\<close>, on the list
  \<open>generated_docs\<close>, the world \<open>w\<close> and the lines \<open>out\<close> printed so far. The result is
  \<open>Inl e\<close> when the exception \<open>e\<close> leaves the body, and \<open>Inr\<close> of the list otherwise.
  \<^verbatim>\<open>
  diagram_name = puml_file.stem
  print(f"Processing: {diagram_name}")
  puml_content = puml_file.read_text()
  extracted_title = extract_title_from_puml(puml_content)
  metadata = DIAGRAM_DESCRIPTIONS.get(diagram_name, {...})
  try:
      print(f"  -> Generating PNG...")
      png_path = generate_png_from_puml(puml_file, OUTPUT_IMG_DIR)
      print(f"  v Created: {png_path.name}")
      print(f"  -> Generating Markdown...")
      md_path = generate_markdown_doc(diagram_name, png_path, metadata["title"],
                                      metadata["description"], OUTPUT_MD_DIR)
      print(f"  v Created: {md_path.name}")
      generated_docs.append((diagram_name, metadata["title"]))
      print()
  except Exception as e:
      print(f"  x Error: {e}")
      print()
      continue
  \<close>
\<close>

definition loop_body ::
  "'w os \<Rightarrow> path \<Rightarrow> path \<Rightarrow> (string \<times> string) list \<Rightarrow> 'w \<Rightarrow> string list
     \<Rightarrow> (exn + (string \<times> string) list) \<times> 'w \<times> string list" where
  "loop_body os here puml_file generated_docs w out =
     (let diagram_name = stem puml_file;
          out1 = out @ [''Processing: '' @ diagram_name]
      in case read_text os puml_file w of
           Inl e \<Rightarrow> (Inl e, w, out1)
         | Inr puml_content \<Rightarrow>
             (let metadata = resolve_metadata diagram_name puml_content;
                  out2 = out1 @ [''  '' @ ARROW @ '' Generating PNG...'']
              in case generate_png_from_puml os puml_file (OUTPUT_IMG_DIR here) w of
                   (Inl e, w1) \<Rightarrow> (Inr generated_docs, w1, out2 @ [error_line e, []])
                 | (Inr png_path, w1) \<Rightarrow>
                     (let out3 = out2 @ [''  '' @ CHECK @ '' Created: '' @ path_name png_path,
                                         ''  '' @ ARROW @ '' Generating Markdown...'']
                      in case generate_markdown_doc os diagram_name png_path (title metadata)
                                (description metadata) (OUTPUT_MD_DIR here) w1 of
                           (Inl e, w2) \<Rightarrow> (Inr generated_docs, w2, out3 @ [error_line e, []])
                         | (Inr md_path, w2) \<Rightarrow>
                             (Inr (generated_docs @ [(diagram_name, title metadata)]), w2,
                              out3 @ [''  '' @ CHECK @ '' Created: '' @ path_name md_path, []]))))"

text \<open>The \<^verbatim>\<open>for\<close> loop: an exception that leaves the body ends the loop.\<close>

fun for_loop ::
  "'w os \<Rightarrow> path \<Rightarrow> path list \<Rightarrow> (string \<times> string) list \<Rightarrow> 'w \<Rightarrow> string list
     \<Rightarrow> (exn + (string \<times> string) list) \<times> 'w \<times> string list" where
  "for_loop os here [] generated_docs w out = (Inr generated_docs, w, out)"
| "for_loop os here (puml_file # puml_files) generated_docs w out =
     (case loop_body os here puml_file generated_docs w out of
        (Inl e, w1, out1) \<Rightarrow> (Inl e, w1, out1)
      | (Inr generated_docs1, w1, out1) \<Rightarrow> for_loop os here puml_files generated_docs1 w1 out1)"

text \<open>
  \<^verbatim>\<open>main\<close>. The result is the exception that leaves \<^verbatim>\<open>main\<close>, if any, the world
  and the printed lines. \<^verbatim>\<open>sorted\<close> orders the paths by their components.
\<close>

definition banner :: "string list" where
  "banner = [''Senzu AI Documentation Generator'', replicate 50 (CHR ''='')]"

definition summary :: "path \<Rightarrow> (string \<times> string) list \<Rightarrow> path \<Rightarrow> string list" where
  "summary here generated_docs index_path =
     [CHECK @ '' Created: '' @ path_name index_path,
      [],
      replicate 50 (CHR ''=''),
      ''Documentation generation complete!'',
      ''  - '' @ str_nat (length generated_docs) @ '' diagrams processed'',
      ''  - Images: '' @ path_str (OUTPUT_IMG_DIR here),
      ''  - Markdown: '' @ path_str (OUTPUT_MD_DIR here),
      ''  - Index: '' @ path_str index_path]"

definition main :: "'w os \<Rightarrow> path \<Rightarrow> 'w \<Rightarrow> exn option \<times> 'w \<times> string list" where
  "main os here w =
     (let puml_files = sort (glob_puml os (PUML_DIR here) w)
      in if puml_files = []
         then (None, w, banner @ [''No .puml files found in '' @ path_str (PUML_DIR here)])
         else
           (case for_loop os here puml_files [] w
                   (banner @ [''Found '' @ str_nat (length puml_files) @ '' PlantUML files'', []]) of
              (Inl e, w1, out1) \<Rightarrow> (Some e, w1, out1)
            | (Inr generated_docs, w1, out1) \<Rightarrow>
                (case generate_index os generated_docs (OUTPUT_MD_DIR here) w1 of
                   (Inl e, w2) \<Rightarrow> (Some e, w2, out1 @ [''Generating index...''])
                 | (Inr index_path, w2) \<Rightarrow>
                     (None, w2,
                      out1 @ [''Generating index...''] @ summary here generated_docs index_path))))"

text \<open>
  Reading the output: a line printed by the \<^verbatim>\<open>except\<close> branch starts with two blanks,
  the ballot cross and \<^verbatim>\<open> Error: \<close>.
\<close>

definition is_error_line :: "string \<Rightarrow> bool" where
  "is_error_line l = prefix (''  '' @ CROSS @ '' Error: '') l"

section \<open>A test double for the environment\<close>

text \<open>
  For running the program on concrete inputs: a world is the list of the files with
  their texts. Directories always exist, writing always succeeds, the files listed in
  \<open>unreadable\<close> raise on reading, and the renderer is the table \<open>renderer\<close> from the
  source argument of the command to an exit code, an error output and the files the
  run creates.
\<close>

type_synonym files = "(path \<times> string) list"

definition stub_os :: "(string \<times> int \<times> string \<times> files) list \<Rightarrow> path list \<Rightarrow> files os" where
  "stub_os renderer unreadable =
     \<lparr>os_mkdir = (\<lambda>d w. (None, w)),
      subprocess_run = (\<lambda>cmd w.
        case map_of renderer (last cmd) of
          None \<Rightarrow> (Inl (FileNotFoundError ''plantuml''), w)
        | Some (rc, err, new) \<Rightarrow> (Inr \<lparr>returncode = rc, stdout = [], stderr = err\<rparr>, new @ w)),
      path_exists = (\<lambda>p w. map_of w p \<noteq> None),
      write_text = (\<lambda>p s w. (None, (p, s) # w)),
      read_text = (\<lambda>p w.
        if p \<in> set unreadable then Inl (OtherException ''PermissionError'' (path_str p))
        else case map_of w p of
               None \<Rightarrow> Inl (FileNotFoundError (path_str p))
             | Some s \<Rightarrow> Inr s),
      glob_puml = (\<lambda>d w. filter (\<lambda>p. p \<noteq> [] \<and> butlast p = d \<and> suffix ''.puml'' (last p)) (map fst w))\<rparr>"

text \<open>
  The scenario of the specification: three sources, a renderer that fails on
  \<^verbatim>\<open>beta-sequence\<close> with a nonzero exit code and creates the image of the other two.
  A fourth command, for \<^verbatim>\<open>delta-class\<close>, exits with zero and creates nothing.
\<close>

definition demo_here :: path where
  "demo_here = [''docs'', ''plantuml'']"

definition demo_source :: "string \<Rightarrow> path" where
  "demo_source n = [''docs'', ''plantuml'', ''puml'', n @ ''.puml'']"

definition demo_png :: "string \<Rightarrow> path" where
  "demo_png n = [''docs'', ''plantuml'', ''images'', n @ ''.png'']"

definition demo_md :: "string \<Rightarrow> path" where
  "demo_md n = [''docs'', ''plantuml'', ''md'', n @ ''.md'']"

definition demo_files :: files where
  "demo_files =
     [(demo_source ''gamma-unrelated'', ''@startuml''),
      (demo_source ''beta-sequence'', ''title Beta''),
      (demo_source ''alpha-architecture'', ''title Alpha'')]"

definition demo_renderer :: "(string \<times> int \<times> string \<times> files) list" where
  "demo_renderer =
     [(''/docs/plantuml/puml/alpha-architecture.puml'', 0, [],
         [(demo_png ''alpha-architecture'', ''PNG'')]),
      (''/docs/plantuml/puml/beta-sequence.puml'', 1, ''syntax error'', []),
      (''/docs/plantuml/puml/gamma-unrelated.puml'', 0, [],
         [(demo_png ''gamma-unrelated'', ''PNG'')]),
      (''/docs/plantuml/puml/delta-class.puml'', 0, [], [])]"

text \<open>
  A second test double, with directories: a world is the list of the files and the
  list of the directories that exist. \<^verbatim>\<open>mkdir(parents=True, exist_ok=True)\<close> adds
  the directory and its ancestors; \<^verbatim>\<open>write_text\<close> raises \<^verbatim>\<open>FileNotFoundError\<close> when
  the directory of the file does not exist, as \<^verbatim>\<open>open\<close> does; the renderer is a
  table as before.
\<close>

type_synonym tree = "files \<times> path list"

definition no_such_file :: "path \<Rightarrow> exn" where
  "no_such_file p =
     FileNotFoundError
       (''[Errno 2] No such file or directory: '' @ [CHR 0x27] @ path_str p @ [CHR 0x27])"

definition tree_os :: "(string \<times> int \<times> string \<times> files) list \<Rightarrow> tree os" where
  "tree_os renderer =
     \<lparr>os_mkdir = (\<lambda>d (fs, ds). (None, (fs, prefixes d @ ds))),
      subprocess_run = (\<lambda>cmd (fs, ds).
        case map_of renderer (last cmd) of
          None \<Rightarrow> (Inl (no_such_file [''plantuml'']), (fs, ds))
        | Some (rc, err, new) \<Rightarrow>
            (Inr \<lparr>returncode = rc, stdout = [], stderr = err\<rparr>, (new @ fs, ds))),
      path_exists = (\<lambda>p (fs, ds). p \<in> set ds \<or> map_of fs p \<noteq> None),
      write_text = (\<lambda>p s (fs, ds).
        if butlast p \<in> set ds then (None, ((p, s) # fs, ds))
        else (Some (no_such_file p), (fs, ds))),
      read_text = (\<lambda>p (fs, ds).
        case map_of fs p of
          None \<Rightarrow> Inl (no_such_file p)
        | Some s \<Rightarrow> Inr s),
      glob_puml = (\<lambda>d (fs, ds).
        filter (\<lambda>p. p \<noteq> [] \<and> butlast p = d \<and> suffix ''.puml'' (last p)) (map fst fs))\<rparr>"

text \<open>
  A fresh checkout: the directory \<^verbatim>\<open>puml\<close> with the one source \<^verbatim>\<open>beta-sequence\<close>,
  which the renderer rejects; the directories \<^verbatim>\<open>images\<close> and \<^verbatim>\<open>md\<close> do not exist
  yet.
\<close>

definition fresh_tree :: tree where
  "fresh_tree =
     ([(demo_source ''beta-sequence'', ''title Beta'')],
      [[''docs'', ''plantuml'', ''puml''], [''docs'', ''plantuml''], [''docs''], []])"

lemmas demo_defs =
  demo_here_def demo_source_def demo_png_def demo_md_def demo_files_def demo_renderer_def

lemmas path_defs =
  joinpath_def path_str_def path_name_def absolute_def stem_def rfind_dot_def png_file_of_def
  PUML_DIR_def OUTPUT_IMG_DIR_def OUTPUT_MD_DIR_def plantuml_cmd_def

section \<open>Renderer invocation: success and the two failures\<close>

text \<open>
  Claim C2. The render step returns a path exactly when the directory could be made,
  the renderer ran and exited with code zero, and the file \<^verbatim>\<open><stem>.png\<close> exists in
  the output directory afterwards; the path returned is that file. When the renderer
  exits with a nonzero code the step raises \<^verbatim>\<open>RuntimeError\<close> with the renderer's
  error output in its message; when it exits with zero and the file is absent the step
  raises \<^verbatim>\<open>FileNotFoundError\<close> naming the file. The two exceptions differ.
\<close>

theorem render_success_iff:
  "(generate_png_from_puml os puml_file output_dir w = (Inr p, w') \<longleftrightarrow>
      (\<exists>w1 result. os_mkdir os output_dir w = (None, w1)
         \<and> subprocess_run os (plantuml_cmd puml_file output_dir) w1 = (Inr result, w')
         \<and> returncode result = 0
         \<and> path_exists os (png_file_of puml_file output_dir) w'
         \<and> p = png_file_of puml_file output_dir))
   \<and> (os_mkdir os output_dir w = (None, w1)
        \<and> subprocess_run os (plantuml_cmd puml_file output_dir) w1 = (Inr result, w2)
        \<and> returncode result \<noteq> 0
      \<longrightarrow> generate_png_from_puml os puml_file output_dir w =
            (Inl (RuntimeError (''PlantUML conversion failed: '' @ stderr result)), w2))
   \<and> (os_mkdir os output_dir w = (None, w1)
        \<and> subprocess_run os (plantuml_cmd puml_file output_dir) w1 = (Inr result, w2)
        \<and> returncode result = 0
        \<and> \<not> path_exists os (png_file_of puml_file output_dir) w2
      \<longrightarrow> generate_png_from_puml os puml_file output_dir w =
            (Inl (FileNotFoundError (''Expected PNG file not created: ''
                                      @ path_str (png_file_of puml_file output_dir))), w2))
   \<and> RuntimeError (''PlantUML conversion failed: '' @ stderr result) \<noteq>
       FileNotFoundError (''Expected PNG file not created: ''
                            @ path_str (png_file_of puml_file output_dir))"
  by (auto simp: generate_png_from_puml_def Let_def
           split: prod.splits option.splits sum.splits if_splits)

theorem render_success_iff_witness:
  "generate_png_from_puml (stub_os demo_renderer []) (demo_source ''alpha-architecture'')
      (OUTPUT_IMG_DIR demo_here) demo_files
     = (Inr (demo_png ''alpha-architecture''),
        (demo_png ''alpha-architecture'', ''PNG'') # demo_files)
   \<and> generate_png_from_puml (stub_os demo_renderer []) (demo_source ''beta-sequence'')
      (OUTPUT_IMG_DIR demo_here) demo_files
     = (Inl (RuntimeError ''PlantUML conversion failed: syntax error''), demo_files)
   \<and> generate_png_from_puml (stub_os demo_renderer []) (demo_source ''delta-class'')
      (OUTPUT_IMG_DIR demo_here) demo_files
     = (Inl (FileNotFoundError
          ''Expected PNG file not created: /docs/plantuml/images/delta-class.png''), demo_files)"
proof -
  let ?os = "stub_os demo_renderer []"
  let ?out = "OUTPUT_IMG_DIR demo_here"
  let ?w = "(demo_png ''alpha-architecture'', ''PNG'') # demo_files"
  have a: "\<exists>w1 result. os_mkdir ?os ?out demo_files = (None, w1)
         \<and> subprocess_run ?os (plantuml_cmd (demo_source ''alpha-architecture'') ?out) w1
              = (Inr result, ?w)
         \<and> returncode result = 0
         \<and> path_exists ?os (png_file_of (demo_source ''alpha-architecture'') ?out) ?w
         \<and> demo_png ''alpha-architecture''
              = png_file_of (demo_source ''alpha-architecture'') ?out"
    by (simp add: stub_os_def demo_defs path_defs)
  have b: "os_mkdir ?os ?out demo_files = (None, demo_files)
        \<and> subprocess_run ?os (plantuml_cmd (demo_source ''beta-sequence'') ?out) demo_files
             = (Inr \<lparr>returncode = 1, stdout = [], stderr = ''syntax error''\<rparr>, demo_files)
        \<and> returncode \<lparr>returncode = 1, stdout = [], stderr = ''syntax error''\<rparr> \<noteq> 0"
    by (simp add: stub_os_def demo_defs path_defs)
  have c: "os_mkdir ?os ?out demo_files = (None, demo_files)
        \<and> subprocess_run ?os (plantuml_cmd (demo_source ''delta-class'') ?out) demo_files
             = (Inr \<lparr>returncode = 0, stdout = [], stderr = []\<rparr>, demo_files)
        \<and> returncode \<lparr>returncode = 0, stdout = [], stderr = []\<rparr> = 0
        \<and> \<not> path_exists ?os (png_file_of (demo_source ''delta-class'') ?out) demo_files"
    by (simp add: stub_os_def demo_defs path_defs)
  have pg: "path_str (png_file_of (demo_source ''delta-class'') ?out)
              = ''/docs/plantuml/images/delta-class.png''"
    by (simp add: demo_defs path_defs)
  from a render_success_iff [of ?os "demo_source ''alpha-architecture''" ?out demo_files
        "demo_png ''alpha-architecture''" ?w]
  have 1: "generate_png_from_puml ?os (demo_source ''alpha-architecture'') ?out demo_files
     = (Inr (demo_png ''alpha-architecture''), ?w)"
    by blast
  from b render_success_iff [of ?os "demo_source ''beta-sequence''" ?out demo_files _ _
        demo_files "\<lparr>returncode = 1, stdout = [], stderr = ''syntax error''\<rparr>" demo_files]
  have 2: "generate_png_from_puml ?os (demo_source ''beta-sequence'') ?out demo_files
     = (Inl (RuntimeError ''PlantUML conversion failed: syntax error''), demo_files)"
    by simp
  from c pg render_success_iff [of ?os "demo_source ''delta-class''" ?out demo_files _ _
        demo_files "\<lparr>returncode = 0, stdout = [], stderr = []\<rparr>" demo_files]
  have 3: "generate_png_from_puml ?os (demo_source ''delta-class'') ?out demo_files
     = (Inl (FileNotFoundError
          ''Expected PNG file not created: /docs/plantuml/images/delta-class.png''), demo_files)"
    by simp
  from 1 2 3 show ?thesis by blast
qed

section \<open>Related diagrams of a page\<close>

lemma lower_char_idem: "lower_char (lower_char c) = lower_char c"
  by (auto simp: lower_char_def Let_def)

lemma lower_idem: "lower (lower s) = lower s"
  by (simp add: lower_def lower_char_idem)

text \<open>
  Claim C3, as amended. The links of the section \<^verbatim>\<open>Related Diagrams\<close> of a page are
  chosen by substring tests on the lowered name, the first test that holds winning:
  a name with \<^verbatim>\<open>architecture\<close> gets the three architecture links; a name without it
  and with \<^verbatim>\<open>sequence\<close> or \<^verbatim>\<open>flow\<close> gets the two flow links; a name with
  \<^verbatim>\<open>class\<close> and none of \<^verbatim>\<open>architecture\<close>, \<^verbatim>\<open>sequence\<close>, \<^verbatim>\<open>flow\<close> gets the two
  class links; a name with none of the four gets no link. The choice does not depend
  on the case of the name, and the page is its head, these links and its foot.
\<close>

theorem related_diagrams_by_keyword:
  "(sublist ''architecture'' (lower n) \<longrightarrow> related_diagrams n = architecture_links)
 \<and> (\<not> sublist ''architecture'' (lower n)
      \<and> (sublist ''sequence'' (lower n) \<or> sublist ''flow'' (lower n))
    \<longrightarrow> related_diagrams n = flow_links)
 \<and> (\<not> sublist ''architecture'' (lower n) \<and> \<not> sublist ''sequence'' (lower n)
      \<and> \<not> sublist ''flow'' (lower n) \<and> sublist ''class'' (lower n)
    \<longrightarrow> related_diagrams n = class_links)
 \<and> (\<not> sublist ''architecture'' (lower n) \<and> \<not> sublist ''sequence'' (lower n)
      \<and> \<not> sublist ''flow'' (lower n) \<and> \<not> sublist ''class'' (lower n)
    \<longrightarrow> related_diagrams n = [])
 \<and> related_diagrams (lower n) = related_diagrams n
 \<and> markdown_content n p t d out =
     page_head t d (relpath p out) @ related_diagrams n @ page_foot n"
  by (simp add: related_diagrams_def markdown_content_def lower_idem)

theorem related_diagrams_by_keyword_witness:
  "related_diagrams ''Senzu-AI-Backend-ARCHITECTURE'' = architecture_links
   \<and> related_diagrams ''senzu-ai-prediction-flow-detailed'' = flow_links
   \<and> related_diagrams ''senzu-ai-class-diagram'' = class_links
   \<and> related_diagrams ''gamma-unrelated'' = []"
proof -
  have 1: "sublist ''architecture'' (lower ''Senzu-AI-Backend-ARCHITECTURE'')"
    by code_simp
  have 2: "\<not> sublist ''architecture'' (lower ''senzu-ai-prediction-flow-detailed'')
      \<and> (sublist ''sequence'' (lower ''senzu-ai-prediction-flow-detailed'')
          \<or> sublist ''flow'' (lower ''senzu-ai-prediction-flow-detailed''))"
    by code_simp
  have 3: "\<not> sublist ''architecture'' (lower ''senzu-ai-class-diagram'')
      \<and> \<not> sublist ''sequence'' (lower ''senzu-ai-class-diagram'')
      \<and> \<not> sublist ''flow'' (lower ''senzu-ai-class-diagram'')
      \<and> sublist ''class'' (lower ''senzu-ai-class-diagram'')"
    by code_simp
  have 4: "\<not> sublist ''architecture'' (lower ''gamma-unrelated'')
      \<and> \<not> sublist ''sequence'' (lower ''gamma-unrelated'')
      \<and> \<not> sublist ''flow'' (lower ''gamma-unrelated'')
      \<and> \<not> sublist ''class'' (lower ''gamma-unrelated'')"
    by code_simp
  have A: "related_diagrams ''Senzu-AI-Backend-ARCHITECTURE'' = architecture_links"
    using 1 related_diagrams_by_keyword [of "''Senzu-AI-Backend-ARCHITECTURE''"] by simp
  have B: "related_diagrams ''senzu-ai-prediction-flow-detailed'' = flow_links"
    using 2 related_diagrams_by_keyword [of "''senzu-ai-prediction-flow-detailed''"] by simp
  have C: "related_diagrams ''senzu-ai-class-diagram'' = class_links"
    using 3 related_diagrams_by_keyword [of "''senzu-ai-class-diagram''"] by simp
  have D: "related_diagrams ''gamma-unrelated'' = []"
    using 4 related_diagrams_by_keyword [of "''gamma-unrelated''"] by simp
  from A B C D show ?thesis by simp
qed

text \<open>
  The claim as it was stated gives every name with \<^verbatim>\<open>class\<close> the class links. The
  name \<^verbatim>\<open>class-flow\<close> has \<^verbatim>\<open>class\<close> in it and gets the flow links, which are
  other links.
\<close>

theorem class_links_counterexample:
  "sublist ''class'' (lower ''class-flow'')
   \<and> related_diagrams ''class-flow'' = flow_links
   \<and> related_diagrams ''class-flow'' \<noteq> class_links"
  by code_simp

section \<open>The index is a fixed text\<close>

text \<open>
  Claim C4. Whatever list of pages is passed, also the empty one, the index composer
  does the same thing: it writes the one fixed, non-empty text \<open>index_content\<close> to the
  file \<^verbatim>\<open>README.md\<close> of the destination directory, and returns that path when the
  write succeeds.
\<close>

theorem generate_index_static:
  "generate_index os md_files output_dir w = generate_index os [] output_dir w
   \<and> generate_index os md_files output_dir w =
       (case write_text os (joinpath output_dir ''README.md'') index_content w of
          (Some e, w1) \<Rightarrow> (Inl e, w1)
        | (None, w1) \<Rightarrow> (Inr (joinpath output_dir ''README.md''), w1))
   \<and> path_name (joinpath output_dir ''README.md'') = ''README.md''
   \<and> index_content \<noteq> []"
proof -
  have "index_content \<noteq> []"
    unfolding index_content_def by simp
  then show ?thesis
    unfolding generate_index_def path_name_def joinpath_def Let_def by simp
qed

theorem generate_index_static_witness:
  "generate_index (stub_os demo_renderer []) [(''alpha-architecture'', ''Alpha'')]
      (OUTPUT_MD_DIR demo_here) []
     = (Inr (demo_md ''README'' ), [(demo_md ''README'', index_content)])
   \<and> generate_index (stub_os demo_renderer []) [] (OUTPUT_MD_DIR demo_here) []
     = (Inr (demo_md ''README''), [(demo_md ''README'', index_content)])"
  using generate_index_static [of "stub_os demo_renderer []"
          "[(''alpha-architecture'', ''Alpha'')]" "OUTPUT_MD_DIR demo_here" "[]"]
        generate_index_static [of "stub_os demo_renderer []" "[]" "OUTPUT_MD_DIR demo_here" "[]"]
  by (simp add: stub_os_def demo_defs path_defs)

section \<open>Metadata resolution\<close>

lemma table_keys_distinct: "distinct (map fst DIAGRAM_DESCRIPTIONS)"
  by (simp add: DIAGRAM_DESCRIPTIONS_def)

text \<open>
  Claim C5. For a name that has an entry in the table the resolved metadata is that
  entry; for a name that has none, the title is what the extractor returns on the
  source text and the description is \<^verbatim>\<open>Documentation for <title>.\<close> with that title.
\<close>

theorem resolve_metadata_table:
  "((n, m) \<in> set DIAGRAM_DESCRIPTIONS \<longrightarrow> resolve_metadata n c = m)
   \<and> (n \<notin> fst ` set DIAGRAM_DESCRIPTIONS \<longrightarrow>
        resolve_metadata n c =
          \<lparr>title = extract_title_from_puml c,
           description = ''Documentation for '' @ extract_title_from_puml c @ ''.''\<rparr>)"
proof -
  have "(n, m) \<in> set DIAGRAM_DESCRIPTIONS \<Longrightarrow> map_of DIAGRAM_DESCRIPTIONS n = Some m"
    using table_keys_distinct by simp
  moreover have "n \<notin> fst ` set DIAGRAM_DESCRIPTIONS \<Longrightarrow> map_of DIAGRAM_DESCRIPTIONS n = None"
    by (simp add: map_of_eq_None_iff)
  ultimately show ?thesis
    by (auto simp: resolve_metadata_def Let_def)
qed

theorem resolve_metadata_table_witness:
  "resolve_metadata ''senzu-ai-class-diagram'' ''title Foo''
     = \<lparr>title = ''Domain Model'', description = description_class_diagram\<rparr>
   \<and> resolve_metadata ''gamma-unrelated'' ''title Foo''
     = \<lparr>title = ''Foo'', description = ''Documentation for Foo.''\<rparr>"
proof -
  have 1: "(''senzu-ai-class-diagram'',
            \<lparr>title = ''Domain Model'', description = description_class_diagram\<rparr>)
           \<in> set DIAGRAM_DESCRIPTIONS"
    by (simp add: DIAGRAM_DESCRIPTIONS_def)
  have 2: "''gamma-unrelated'' \<notin> fst ` set DIAGRAM_DESCRIPTIONS"
    by (simp add: DIAGRAM_DESCRIPTIONS_def)
  have 3: "extract_title_from_puml ''title Foo'' = ''Foo''"
    by (simp add: extract_title_from_puml_def match_here_def isspace_def strip_def newline_def)
  from 1 2 3
    resolve_metadata_table [of "''senzu-ai-class-diagram''" _ "''title Foo''"]
    resolve_metadata_table [of "''gamma-unrelated''" _ "''title Foo''"]
  show ?thesis by simp
qed

section \<open>Page composition is a function of its inputs\<close>

text \<open>
  Claim C8. Two runs of the page composer on the same name, image path, title,
  description and destination directory, in any two environments and worlds, that both
  return, return the same path and have written the same text to it: the text
  \<open>markdown_content\<close>, which is computed from these five inputs alone.
\<close>

theorem compose_deterministic:
  assumes "generate_markdown_doc os n p t d out w = (Inr md, w')"
      and "generate_markdown_doc os' n p t d out v = (Inr md', v')"
  shows "md' = md
     \<and> md = joinpath out (n @ ''.md'')
     \<and> (\<exists>w1. os_mkdir os out w = (None, w1)
            \<and> write_text os md (markdown_content n p t d out) w1 = (None, w'))
     \<and> (\<exists>v1. os_mkdir os' out v = (None, v1)
            \<and> write_text os' md (markdown_content n p t d out) v1 = (None, v'))"
  using assms
  by (auto simp: generate_markdown_doc_def Let_def split: prod.splits option.splits)

theorem compose_deterministic_witness:
  "map_of (snd (generate_markdown_doc (stub_os demo_renderer []) ''gamma-unrelated''
                  (demo_png ''gamma-unrelated'') ''T'' ''D'' (OUTPUT_MD_DIR demo_here) demo_files))
          (demo_md ''gamma-unrelated'')
   = map_of (snd (generate_markdown_doc (stub_os [] []) ''gamma-unrelated''
                  (demo_png ''gamma-unrelated'') ''T'' ''D'' (OUTPUT_MD_DIR demo_here) []))
          (demo_md ''gamma-unrelated'')"
proof -
  let ?doc = "markdown_content ''gamma-unrelated'' (demo_png ''gamma-unrelated'') ''T'' ''D''
                (OUTPUT_MD_DIR demo_here)"
  have a: "generate_markdown_doc (stub_os demo_renderer []) ''gamma-unrelated''
             (demo_png ''gamma-unrelated'') ''T'' ''D'' (OUTPUT_MD_DIR demo_here) demo_files
           = (Inr (demo_md ''gamma-unrelated''), (demo_md ''gamma-unrelated'', ?doc) # demo_files)"
    by (simp add: generate_markdown_doc_def stub_os_def joinpath_def OUTPUT_MD_DIR_def
        demo_here_def demo_md_def Let_def)
  have b: "generate_markdown_doc (stub_os [] []) ''gamma-unrelated''
             (demo_png ''gamma-unrelated'') ''T'' ''D'' (OUTPUT_MD_DIR demo_here) []
           = (Inr (demo_md ''gamma-unrelated''), [(demo_md ''gamma-unrelated'', ?doc)])"
    by (simp add: generate_markdown_doc_def stub_os_def joinpath_def OUTPUT_MD_DIR_def
        demo_here_def demo_md_def Let_def)
  from compose_deterministic [OF a b] a b show ?thesis
    by simp
qed

section \<open>The title extractor against the specification\<close>

lemma group_after_Some:
  "group_after r j = Some g \<Longrightarrow>
     \<exists>j'. 0 < j' \<and> j' \<le> j \<and> g = line_of (drop j' r) \<and> g \<noteq> []
          \<and> (\<forall>i. j' < i \<and> i \<le> j \<longrightarrow> line_of (drop i r) = [])"
proof (induction j)
  case 0
  then show ?case by simp
next
  case (Suc j)
  show ?case
  proof (cases "line_of (drop (Suc j) r)")
    case Nil
    with Suc.prems have "group_after r j = Some g" by simp
    from Suc.IH [OF this] obtain j' where j': "0 < j'" "j' \<le> j" "g = line_of (drop j' r)" "g \<noteq> []"
      "\<forall>i. j' < i \<and> i \<le> j \<longrightarrow> line_of (drop i r) = []" by blast
    have "\<forall>i. j' < i \<and> i \<le> Suc j \<longrightarrow> line_of (drop i r) = []"
      using j'(5) Nil by (metis le_Suc_eq)
    with j' show ?thesis by (intro exI [of _ j']) simp
  next
    case (Cons c cs)
    with Suc.prems have "g = line_of (drop (Suc j) r)" by simp
    with Cons show ?thesis by (intro exI [of _ "Suc j"]) simp
  qed
qed

lemma group_after_None:
  "group_after r j = None \<Longrightarrow> 0 < i \<Longrightarrow> i \<le> j \<Longrightarrow> line_of (drop i r) = []"
proof (induction j)
  case 0
  then show ?case by simp
next
  case (Suc j)
  then show ?case
    by (cases "line_of (drop (Suc j) r)") (auto simp: le_Suc_eq)
qed

lemma space_prefix_le:
  "list_all isspace ws \<Longrightarrow> length ws \<le> length (takeWhile isspace (ws @ r))"
  by (induction ws) auto

lemma line_of_append:
  "newline \<notin> set g \<Longrightarrow> line_of (g @ r) = g @ line_of r"
  by (induction g) auto

lemma directive_here:
  assumes "directive t [] ws g rest"
  shows "prefix ''title'' t" and "0 < length ws"
    and "length ws \<le> length (takeWhile isspace (drop 5 t))"
    and "line_of (drop (length ws) (drop 5 t)) = g @ line_of rest"
  using assms
  by (auto simp: directive_def space_prefix_le line_of_append)

lemma match_here_None:
  assumes "match_here t = None"
  shows "\<not> directive t [] ws g rest"
proof
  assume d: "directive t [] ws g rest"
  from directive_here [OF d] assms
  have "group_after (drop 5 t) (length (takeWhile isspace (drop 5 t))) = None"
    by (simp add: match_here_def Let_def)
  from group_after_None [OF this directive_here(2,3) [OF d]] directive_here(4) [OF d]
  have "g = []" by simp
  with d show False by (simp add: directive_def)
qed

lemma take_spaces:
  "j \<le> length (takeWhile isspace r) \<Longrightarrow> list_all isspace (take j r)"
proof -
  assume "j \<le> length (takeWhile isspace r)"
  then have "take j r = take j (takeWhile isspace r)"
    by (metis append_eq_conv_conj min.absorb2 take_take takeWhile_dropWhile_id take_append
        diff_is_0_eq take_0 append_Nil2)
  moreover have "list_all isspace (takeWhile isspace r)"
    by (simp add: list_all_iff) (meson set_takeWhileD)
  ultimately show ?thesis
    by (metis list_all_append append_take_drop_id)
qed

lemma match_here_Some:
  assumes "match_here t = Some g"
  shows "\<exists>ws rest. directive t [] ws g rest \<and>
           (\<forall>ws' g' rest'. directive t [] ws' g' rest' \<longrightarrow>
              length ws' < length ws \<or> (length ws' = length ws \<and> length g' \<le> length g))"
proof -
  let ?r = "drop 5 t"
  let ?k = "length (takeWhile isspace ?r)"
  from assms have p: "prefix ''title'' t" and ga: "group_after ?r ?k = Some g"
    by (auto simp: match_here_def Let_def split: if_splits)
  from group_after_Some [OF ga] obtain j where j: "0 < j" "j \<le> ?k" "g = line_of (drop j ?r)"
    "g \<noteq> []" "\<forall>i. j < i \<and> i \<le> ?k \<longrightarrow> line_of (drop i ?r) = []" by blast
  let ?ws = "take j ?r"
  let ?rest = "dropWhile (\<lambda>c. c \<noteq> newline) (drop j ?r)"
  from p have t: "t = ''title'' @ ?r"
    by (auto simp: prefix_def)
  from j(2) have jl: "j \<le> length ?r"
    by (meson le_trans length_takeWhile_le)
  have gr: "g @ ?rest = drop j ?r"
    unfolding j(3) by (rule takeWhile_dropWhile_id)
  have r: "?r = ?ws @ g @ ?rest"
    unfolding gr by (rule append_take_drop_id [symmetric])
  have nl: "newline \<notin> set g"
    using j(3) by (auto dest: set_takeWhileD)
  have lws: "length ?ws = j" using jl by simp
  have d: "directive t [] ?ws g ?rest"
    unfolding directive_def
    using t r j(1,4) nl take_spaces [OF j(2)] jl
    by (metis append_Nil length_0_conv lws not_less_zero)
  have "length ws' < length ?ws \<or> (length ws' = length ?ws \<and> length g' \<le> length g)"
    if d': "directive t [] ws' g' rest'" for ws' g' rest'
  proof -
    from directive_here [OF d'] have 1: "0 < length ws'" "length ws' \<le> ?k"
      and 2: "line_of (drop (length ws') ?r) = g' @ line_of rest'" by auto
    from d' have "g' \<noteq> []" by (simp add: directive_def)
    with 2 have "line_of (drop (length ws') ?r) \<noteq> []" by simp
    with j(5) 1 have le: "length ws' \<le> j" by (meson not_le_imp_less)
    show ?thesis
    proof (cases "length ws' = j")
      case True
      with 2 j(3) have "g = g' @ line_of rest'" by simp
      then have "length g' \<le> length g" by simp
      with True lws show ?thesis by simp
    next
      case False
      with le lws show ?thesis by simp
    qed
  qed
  with d show ?thesis by blast
qed

lemma directive_Cons:
  "directive (c # s) (c' # pre) ws g rest \<longleftrightarrow> c = c' \<and> directive s pre ws g rest"
  by (auto simp: directive_def)

lemma re_search_None:
  "re_search s = None \<Longrightarrow> \<not> directive s pre ws g rest"
proof (induction s arbitrary: pre)
  case Nil
  then show ?case by (simp add: directive_def)
next
  case (Cons c s)
  from Cons.prems have m: "match_here (c # s) = None" and r: "re_search s = None"
    by (auto split: option.splits)
  show ?case
  proof (cases pre)
    case Nil
    with match_here_None [OF m] show ?thesis by simp
  next
    case (Cons c' pre')
    with Cons.IH [OF r] show ?thesis by (simp add: directive_Cons)
  qed
qed

lemma re_search_Some:
  "re_search s = Some g \<Longrightarrow> \<exists>pre ws rest. first_match s pre ws g rest"
proof (induction s)
  case Nil
  then show ?case by (simp add: match_here_def)
next
  case (Cons c s)
  show ?case
  proof (cases "match_here (c # s)")
    case (Some g0)
    with Cons.prems have "g0 = g" by simp
    with Some match_here_Some [of "c # s" g] obtain ws rest where
      d: "directive (c # s) [] ws g rest" and
      m: "\<forall>ws' g' rest'. directive (c # s) [] ws' g' rest' \<longrightarrow>
              length ws' < length ws \<or> (length ws' = length ws \<and> length g' \<le> length g)"
      by blast
    have "first_match (c # s) [] ws g rest"
      unfolding first_match_def
    proof (intro conjI allI impI)
      fix pre' ws' g' rest'
      assume d': "directive (c # s) pre' ws' g' rest'"
      show "length [] < length pre' \<or>
        (length pre' = length [] \<and>
          (length ws' < length ws \<or> (length ws' = length ws \<and> length g' \<le> length g)))"
      proof (cases pre')
        case Nil
        with d' m show ?thesis by (simp, blast)
      next
        case (Cons a list)
        then show ?thesis by simp
      qed
    qed (rule d)
    then show ?thesis by blast
  next
    case None
    with Cons.prems have "re_search s = Some g" by simp
    from Cons.IH [OF this] obtain pre ws rest where f: "first_match s pre ws g rest" by blast
    have "first_match (c # s) (c # pre) ws g rest"
      unfolding first_match_def
    proof (intro conjI allI impI)
      show "directive (c # s) (c # pre) ws g rest"
        using f by (simp add: first_match_def directive_Cons)
    next
      fix pre' ws' g' rest'
      assume d': "directive (c # s) pre' ws' g' rest'"
      show "length (c # pre) < length pre' \<or>
        (length pre' = length (c # pre) \<and>
          (length ws' < length ws \<or> (length ws' = length ws \<and> length g' \<le> length g)))"
      proof (cases pre')
        case Nil
        with d' match_here_None [OF None] show ?thesis by simp
      next
        case (Cons a list)
        with d' have "directive s list ws' g' rest'" by (simp add: directive_Cons)
        with f Cons show ?thesis
          unfolding first_match_def by fastforce
      qed
    qed
    then show ?thesis by blast
  qed
qed

lemma first_match_unique:
  assumes "first_match s pre ws g rest" and "first_match s pre' ws' g' rest'"
  shows "g' = g"
proof -
  from assms have d: "directive s pre ws g rest" and d': "directive s pre' ws' g' rest'"
    by (simp_all add: first_match_def)
  from assms(1) d' have A: "length pre < length pre' \<or>
        (length pre' = length pre \<and>
          (length ws' < length ws \<or> (length ws' = length ws \<and> length g' \<le> length g)))"
    unfolding first_match_def by blast
  from assms(2) d have B: "length pre' < length pre \<or>
        (length pre = length pre' \<and>
          (length ws < length ws' \<or> (length ws = length ws' \<and> length g \<le> length g')))"
    unfolding first_match_def by blast
  from A B have "length pre' = length pre" "length ws' = length ws" "length g' = length g"
    by auto
  moreover from d d' have "pre @ ''title'' @ ws @ g @ rest = pre' @ ''title'' @ ws' @ g' @ rest'"
    by (simp add: directive_def)
  ultimately show ?thesis
    by (metis append_eq_append_conv)
qed

text \<open>
  Claim C6. When the source text has a title directive it has a first match, and the
  extractor returns the trailing text of the first match, stripped; when the text has
  no directive the extractor returns \<^verbatim>\<open>Untitled Diagram\<close>. The extractor is a total
  function: it returns on every text.
\<close>

theorem extract_title_first_match:
  "(first_match s pre ws g rest \<longrightarrow> extract_title_from_puml s = strip g)
   \<and> ((\<exists>pre ws g rest. directive s pre ws g rest) \<longrightarrow>
        (\<exists>pre ws g rest. first_match s pre ws g rest))
   \<and> (\<not> (\<exists>pre ws g rest. directive s pre ws g rest) \<longrightarrow>
        extract_title_from_puml s = ''Untitled Diagram'')"
proof (intro conjI impI)
  assume f: "first_match s pre ws g rest"
  then have "directive s pre ws g rest" by (simp add: first_match_def)
  with re_search_None [of s] obtain g0 where g0: "re_search s = Some g0"
    by (cases "re_search s") auto
  from re_search_Some [OF g0] obtain pre0 ws0 rest0 where "first_match s pre0 ws0 g0 rest0"
    by blast
  from first_match_unique [OF f this] g0
  show "extract_title_from_puml s = strip g"
    by (simp add: extract_title_from_puml_def)
next
  assume "\<exists>pre ws g rest. directive s pre ws g rest"
  with re_search_None [of s] obtain g0 where "re_search s = Some g0"
    by (cases "re_search s") auto
  from re_search_Some [OF this] show "\<exists>pre ws g rest. first_match s pre ws g rest"
    by blast
next
  assume n: "\<not> (\<exists>pre ws g rest. directive s pre ws g rest)"
  have "re_search s = None"
  proof (cases "re_search s")
    case (Some g0)
    from re_search_Some [OF Some] n show ?thesis
      by (auto simp: first_match_def)
  qed simp
  then show "extract_title_from_puml s = ''Untitled Diagram''"
    by (simp add: extract_title_from_puml_def)
qed

lemma directive_sublist:
  "directive s pre ws g rest \<Longrightarrow> sublist ''title'' s"
  unfolding directive_def sublist_def by blast

theorem extract_title_first_match_witness:
  "(\<exists>pre ws g rest. first_match ''title   My Diagram  '' pre ws g rest
        \<and> extract_title_from_puml ''title   My Diagram  '' = strip g)
   \<and> extract_title_from_puml ''title   My Diagram  '' = ''My Diagram''
   \<and> extract_title_from_puml ''@startuml'' = ''Untitled Diagram''"
proof -
  let ?s = "''title   My Diagram  ''"
  have "directive ?s [] ''   '' ''My Diagram  '' []"
    by (simp add: directive_def isspace_def newline_def)
  then have d: "\<exists>pre ws g rest. directive ?s pre ws g rest"
    by (intro exI)
  from extract_title_first_match [of ?s, THEN conjunct2, THEN conjunct1, THEN mp, OF d]
  obtain pre ws g rest where f: "first_match ?s pre ws g rest"
    by (elim exE)
  from extract_title_first_match [of ?s pre ws g rest, THEN conjunct1, THEN mp, OF f] f
  have 1: "\<exists>pre ws g rest. first_match ?s pre ws g rest \<and> extract_title_from_puml ?s = strip g"
    by (intro exI conjI)
  have 2: "extract_title_from_puml ?s = ''My Diagram''"
    by (simp add: extract_title_from_puml_def match_here_def isspace_def strip_def newline_def)
  have "\<not> sublist ''title'' ''@startuml''"
    by code_simp
  then have n: "\<not> (\<exists>pre ws g rest. directive ''@startuml'' pre ws g rest)"
    using directive_sublist by (intro notI) (elim exE, simp)
  from extract_title_first_match [of "''@startuml''", THEN conjunct2, THEN conjunct2, THEN mp, OF n]
  have 3: "extract_title_from_puml ''@startuml'' = ''Untitled Diagram''" .
  from 1 2 3 show ?thesis by (intro conjI)
qed

section \<open>The word title inside a longer word\<close>

lemma re_search_skip:
  "(\<forall>i<length pre. \<not> prefix ''title'' (drop i (pre @ t))) \<Longrightarrow> re_search (pre @ t) = re_search t"
proof (induction pre)
  case Nil
  then show ?case by simp
next
  case (Cons c pre)
  from Cons.prems have "0 < length (c # pre) \<longrightarrow> \<not> prefix ''title'' (drop 0 ((c # pre) @ t))"
    by (rule spec)
  then have "\<not> prefix ''title'' (c # pre @ t)"
    by (simp only: length_Cons zero_less_Suc drop_0 append_Cons simp_thms)
  then have m: "match_here (c # pre @ t) = None"
    by (simp only: match_here_def if_False)
  have "\<forall>i<length pre. \<not> prefix ''title'' (drop i (pre @ t))"
  proof (intro allI impI)
    fix i assume "i < length pre"
    then have "Suc i < length (c # pre)" by simp
    with Cons.prems have "\<not> prefix ''title'' (drop (Suc i) ((c # pre) @ t))" by blast
    then show "\<not> prefix ''title'' (drop i (pre @ t))" by simp
  qed
  from Cons.IH [OF this] m show ?case by simp
qed

lemma takeWhile_spaces_append:
  "list_all isspace ws \<Longrightarrow> \<not> isspace b \<Longrightarrow> takeWhile isspace (ws @ b # r) = ws"
  by (induction ws) auto

lemma line_of_stop:
  "newline \<notin> set g \<Longrightarrow> rest = [] \<or> hd rest = newline \<Longrightarrow> line_of (g @ rest) = g"
  by (cases rest) (auto simp: line_of_append)

lemma match_here_word:
  assumes "ws \<noteq> []" "list_all isspace ws" "\<not> isspace b" "newline \<notin> set (b # bs)"
    and "rest = [] \<or> hd rest = newline"
  shows "match_here (''title'' @ ws @ (b # bs) @ rest) = Some (b # bs)"
proof -
  let ?r = "ws @ (b # bs) @ rest"
  have k: "length (takeWhile isspace ?r) = length ws"
    using takeWhile_spaces_append [OF assms(2,3)] by simp
  from assms(1) obtain j where j: "length ws = Suc j"
    by (cases ws) auto
  have "line_of (drop (Suc j) ?r) = b # bs"
    using line_of_stop [OF assms(4,5)] j [symmetric] by simp
  then have "group_after ?r (Suc j) = Some (b # bs)"
    by simp
  with k j show ?thesis
    by (simp add: match_here_def Let_def)
qed

text \<open>
  Claim C10. The pattern is not anchored: when the first occurrence of \<^verbatim>\<open>title\<close> in
  the text, wherever it lies (\<open>pre\<close> is any text, such as \<^verbatim>\<open>sub\<close>), is followed by
  whitespace \<open>ws\<close> and then by text \<open>body\<close> that runs to the end of its line, the
  extractor returns that text, stripped, whatever follows in \<open>rest\<close>.
\<close>

theorem title_inside_word:
  assumes "s = pre @ ''title'' @ ws @ body @ rest"
    and "\<forall>i<length pre. \<not> prefix ''title'' (drop i s)"
    and "ws \<noteq> []" and "list_all isspace ws"
    and "body \<noteq> []" and "\<not> isspace (hd body)" and "newline \<notin> set body"
    and "rest = [] \<or> hd rest = newline"
  shows "extract_title_from_puml s = strip body"
proof -
  let ?t = "''title'' @ ws @ body @ rest"
  from assms(5) obtain b bs where body: "body = b # bs"
    by (cases body) auto
  from assms(6) body have nb: "\<not> isspace b" by simp
  from assms(7) body have nn: "newline \<notin> set (b # bs)" by simp
  have m: "match_here ?t = Some body"
    unfolding body using match_here_word [OF assms(3,4) nb nn assms(8)] by simp
  have "re_search ?t = Some body"
    using m by (simp del: re_search.simps add: re_search.simps(2) [of "CHR ''t''" "''itle'' @ ws @ body @ rest", simplified])
  moreover have "re_search s = re_search ?t"
    unfolding assms(1) using assms(2) [unfolded assms(1)] by (rule re_search_skip)
  ultimately show ?thesis
    by (simp add: extract_title_from_puml_def)
qed

theorem title_inside_word_witness:
  "extract_title_from_puml (''subtitle Foo'' @ [newline] @ ''title Bar'') = ''Foo''"
proof -
  let ?s = "''subtitle Foo'' @ [newline] @ ''title Bar''"
  have 1: "?s = ''sub'' @ ''title'' @ '' '' @ ''Foo'' @ ([newline] @ ''title Bar'')"
    by simp
  have 2: "\<forall>i<length ''sub''. \<not> prefix ''title'' (drop i ?s)"
  proof (intro allI impI)
    fix i :: nat assume "i < length ''sub''"
    then have "i = 0 \<or> i = 1 \<or> i = 2" by auto
    then show "\<not> prefix ''title'' (drop i ?s)" by auto
  qed
  have 3: "list_all isspace '' ''" "\<not> isspace (hd ''Foo'')" "newline \<notin> set ''Foo''"
    by (simp_all add: isspace_def newline_def)
  have 4: "[newline] @ ''title Bar'' = [] \<or> hd ([newline] @ ''title Bar'') = newline"
    by simp
  have 5: "strip ''Foo'' = ''Foo''"
    by (simp add: strip_def isspace_def)
  from title_inside_word [OF 1 2 _ 3(1) _ 3(2,3) 4] 5 show ?thesis
    by simp
qed

section \<open>The loop of the orchestrator\<close>

lemma loop_body_read_fails:
  "read_text os f w = Inl e \<Longrightarrow>
     loop_body os here f docs w out = (Inl e, w, out @ [''Processing: '' @ stem f])"
  by (simp add: loop_body_def Let_def)

lemma loop_body_render_fails:
  "read_text os f w = Inr c \<Longrightarrow>
   generate_png_from_puml os f (OUTPUT_IMG_DIR here) w = (Inl e, w1) \<Longrightarrow>
     loop_body os here f docs w out =
       (Inr docs, w1,
        out @ [''Processing: '' @ stem f, ''  '' @ ARROW @ '' Generating PNG...'', error_line e, []])"
  by (simp add: loop_body_def Let_def)

lemma loop_body_compose_fails:
  "read_text os f w = Inr c \<Longrightarrow>
   generate_png_from_puml os f (OUTPUT_IMG_DIR here) w = (Inr p, w1) \<Longrightarrow>
   generate_markdown_doc os (stem f) p (title (resolve_metadata (stem f) c))
      (description (resolve_metadata (stem f) c)) (OUTPUT_MD_DIR here) w1 = (Inl e, w2) \<Longrightarrow>
     loop_body os here f docs w out =
       (Inr docs, w2,
        out @ [''Processing: '' @ stem f, ''  '' @ ARROW @ '' Generating PNG...'',
               ''  '' @ CHECK @ '' Created: '' @ path_name p,
               ''  '' @ ARROW @ '' Generating Markdown...'', error_line e, []])"
  by (simp add: loop_body_def Let_def)

lemma loop_body_succeeds:
  "read_text os f w = Inr c \<Longrightarrow>
   generate_png_from_puml os f (OUTPUT_IMG_DIR here) w = (Inr p, w1) \<Longrightarrow>
   generate_markdown_doc os (stem f) p (title (resolve_metadata (stem f) c))
      (description (resolve_metadata (stem f) c)) (OUTPUT_MD_DIR here) w1 = (Inr m, w2) \<Longrightarrow>
     loop_body os here f docs w out =
       (Inr (docs @ [(stem f, title (resolve_metadata (stem f) c))]), w2,
        out @ [''Processing: '' @ stem f, ''  '' @ ARROW @ '' Generating PNG...'',
               ''  '' @ CHECK @ '' Created: '' @ path_name p,
               ''  '' @ ARROW @ '' Generating Markdown...'',
               ''  '' @ CHECK @ '' Created: '' @ path_name m, []])"
  by (simp add: loop_body_def Let_def)

lemma error_line_counts:
  "length (filter is_error_line
     [''Processing: '' @ n, ''  '' @ ARROW @ '' Generating PNG...'', error_line e, []]) = 1"
  "length (filter is_error_line
     [''Processing: '' @ n, ''  '' @ ARROW @ '' Generating PNG...'',
      ''  '' @ CHECK @ '' Created: '' @ a,
      ''  '' @ ARROW @ '' Generating Markdown...'', error_line e, []]) = 1"
  "length (filter is_error_line
     [''Processing: '' @ n, ''  '' @ ARROW @ '' Generating PNG...'',
      ''  '' @ CHECK @ '' Created: '' @ a,
      ''  '' @ ARROW @ '' Generating Markdown...'',
      ''  '' @ CHECK @ '' Created: '' @ b, []]) = 0"
  by (simp_all add: is_error_line_def error_line_def ARROW_def CHECK_def CROSS_def)

text \<open>What one pass that does not raise leaves behind.\<close>

lemma loop_body_returns:
  assumes "loop_body os here f docs w out = (Inr docs', w', out')"
  shows "\<exists>new lines. docs' = docs @ new \<and> out' = out @ lines
           \<and> length new + length (filter is_error_line lines) = 1
           \<and> (new = [] \<or> map fst new = [stem f])"
proof (cases "read_text os f w")
  case (Inl e)
  from loop_body_read_fails [OF this, of here docs out] assms show ?thesis
    by (simp only: prod.inject sum.distinct simp_thms)
next
  case (Inr c)
  obtain r1 w1 where png: "generate_png_from_puml os f (OUTPUT_IMG_DIR here) w = (r1, w1)"
    by (cases "generate_png_from_puml os f (OUTPUT_IMG_DIR here) w")
  show ?thesis
  proof (cases r1)
    case (Inl e)
    let ?l = "[''Processing: '' @ stem f, ''  '' @ ARROW @ '' Generating PNG...'', error_line e, []]"
    from loop_body_render_fails [OF Inr png [unfolded Inl], of docs out] assms
    have 1: "docs' = docs @ []" and 2: "out' = out @ ?l"
      by (simp_all only: prod.inject sum.inject append_Nil2)
    have 3: "length ([] :: (string \<times> string) list) + length (filter is_error_line ?l) = 1"
      by (simp only: error_line_counts list.size add_0)
    have 4: "([] :: (string \<times> string) list) = [] \<or> map fst ([] :: (string \<times> string) list) = [stem f]"
      by (simp only: simp_thms)
    show ?thesis
      by (rule exI [of _ "[]"], rule exI [of _ ?l], intro conjI) (fact 1, fact 2, fact 3, fact 4)
  next
    case p: (Inr p)
    obtain r2 w2 where md: "generate_markdown_doc os (stem f) p (title (resolve_metadata (stem f) c))
      (description (resolve_metadata (stem f) c)) (OUTPUT_MD_DIR here) w1 = (r2, w2)"
      by (cases "generate_markdown_doc os (stem f) p (title (resolve_metadata (stem f) c))
      (description (resolve_metadata (stem f) c)) (OUTPUT_MD_DIR here) w1")
    show ?thesis
    proof (cases r2)
      case (Inl e)
      let ?l = "[''Processing: '' @ stem f, ''  '' @ ARROW @ '' Generating PNG...'',
               ''  '' @ CHECK @ '' Created: '' @ path_name p,
               ''  '' @ ARROW @ '' Generating Markdown...'', error_line e, []]"
      from loop_body_compose_fails [OF Inr png [unfolded p] md [unfolded Inl], of docs out] assms
      have 1: "docs' = docs @ []" and 2: "out' = out @ ?l"
        by (simp_all only: prod.inject sum.inject append_Nil2)
      have 3: "length ([] :: (string \<times> string) list) + length (filter is_error_line ?l) = 1"
        by (simp only: error_line_counts list.size add_0)
      have 4: "([] :: (string \<times> string) list) = [] \<or> map fst ([] :: (string \<times> string) list) = [stem f]"
        by (simp only: simp_thms)
      show ?thesis
        by (rule exI [of _ "[]"], rule exI [of _ ?l], intro conjI) (fact 1, fact 2, fact 3, fact 4)
    next
      case m: (Inr m)
      let ?l = "[''Processing: '' @ stem f, ''  '' @ ARROW @ '' Generating PNG...'',
               ''  '' @ CHECK @ '' Created: '' @ path_name p,
               ''  '' @ ARROW @ '' Generating Markdown...'',
               ''  '' @ CHECK @ '' Created: '' @ path_name m, []]"
      let ?n = "[(stem f, title (resolve_metadata (stem f) c))]"
      from loop_body_succeeds [OF Inr png [unfolded p] md [unfolded m], of docs out] assms
      have 1: "docs' = docs @ ?n" and 2: "out' = out @ ?l"
        by (simp_all only: prod.inject sum.inject)
      have 3: "length ?n + length (filter is_error_line ?l) = 1"
        by (simp only: error_line_counts) simp
      have 4: "?n = [] \<or> map fst ?n = [stem f]"
        by simp
      show ?thesis
        by (rule exI [of _ ?n], rule exI [of _ ?l], intro conjI) (fact 1, fact 2, fact 3, fact 4)
    qed
  qed
qed

lemma for_loop_returns:
  "for_loop os here fs docs w out = (Inr docs', w', out') \<Longrightarrow>
     \<exists>new lines. docs' = docs @ new \<and> out' = out @ lines
        \<and> length new + length (filter is_error_line lines) = length fs
        \<and> subseq (map fst new) (map stem fs)"
proof (induction fs arbitrary: docs w out)
  case Nil
  then have "docs' = docs @ []" "out' = out @ []" by simp_all
  then show ?case
    by (intro exI [of _ "[]"] conjI) simp_all
next
  case (Cons f fs)
  obtain r w1 out1 where b: "loop_body os here f docs w out = (r, w1, out1)"
    by (cases "loop_body os here f docs w out")
  from Cons.prems b
  have c: "(case r of Inl e \<Rightarrow> (Inl e, w1, out1)
              | Inr d \<Rightarrow> for_loop os here fs d w1 out1) = (Inr docs', w', out')"
    by (cases r) simp_all
  then obtain docs1 where r: "r = Inr docs1"
    and rest: "for_loop os here fs docs1 w1 out1 = (Inr docs', w', out')"
    by (cases r) simp_all
  from loop_body_returns [OF b [unfolded r]] obtain n1 l1 where
    1: "docs1 = docs @ n1" "out1 = out @ l1" "length n1 + length (filter is_error_line l1) = 1"
       "n1 = [] \<or> map fst n1 = [stem f]" by (elim exE conjE)
  from Cons.IH [OF rest] obtain n2 l2 where
    2: "docs' = docs1 @ n2" "out' = out1 @ l2"
       "length n2 + length (filter is_error_line l2) = length fs"
       "subseq (map fst n2) (map stem fs)" by (elim exE conjE)
  have s: "subseq (map fst (n1 @ n2)) (map stem (f # fs))"
  proof (cases "n1 = []")
    case True
    with 2(4) show ?thesis by (simp add: list_emb_Cons)
  next
    case False
    with 1(4) have "map fst n1 = [stem f]" by simp
    with 2(4) show ?thesis by simp
  qed
  have d: "docs' = docs @ (n1 @ n2)" and o: "out' = out @ (l1 @ l2)"
    using 1(1,2) 2(1,2) by simp_all
  have l: "length (n1 @ n2) + length (filter is_error_line (l1 @ l2)) = length (f # fs)"
    using 1(3) 2(3) by simp
  show ?case
    by (rule exI [of _ "n1 @ n2"], rule exI [of _ "l1 @ l2"], intro conjI) (fact d, fact o, fact l, fact s)
qed

lemma for_loop_append:
  "for_loop os here (xs @ ys) docs w out =
     (case for_loop os here xs docs w out of
        (Inl e, w1, out1) \<Rightarrow> (Inl e, w1, out1)
      | (Inr docs1, w1, out1) \<Rightarrow> for_loop os here ys docs1 w1 out1)"
  by (induction xs arbitrary: docs w out) (auto split: prod.splits sum.splits)

lemma not_prefix_replicate:
  "a \<noteq> b \<Longrightarrow> \<not> prefix (a # as) (replicate n b)"
  by (cases n) auto

lemma banner_no_error:
  "filter is_error_line banner = []"
  "filter is_error_line [''Found '' @ n @ '' PlantUML files'', []] = []"
  by (simp_all add: banner_def is_error_line_def CROSS_def not_prefix_replicate)

text \<open>
  What holds of the loop. In a pass whose source could be read, an exception raised by
  the render step, or by the page composer after a successful render, is caught: the
  line \<^verbatim>\<open>Processing: <name>\<close> and the error line with the exception's text are
  printed, the list of generated pages is left as it was, and the loop goes on with
  the next source from the world the failed step left. When both steps return, the
  pair of name and title is appended. When the loop over a non-empty list of sources
  has run through, \<^verbatim>\<open>main\<close> goes on with the index composer on the list whatever it
  holds; the length of the list, which the summary would print, plus the number of
  error lines printed is the number of sources, and the names in the list are names of
  sources, in their order.
\<close>

lemma loop_partial_failure:
  "(read_text os f w = Inr c
      \<and> generate_png_from_puml os f (OUTPUT_IMG_DIR here) w = (Inl e, w1)
    \<longrightarrow> for_loop os here (f # fs) docs w out =
          for_loop os here fs docs w1
            (out @ [''Processing: '' @ stem f, ''  '' @ ARROW @ '' Generating PNG...'',
                    error_line e, []]))
   \<and> (read_text os f w = Inr c
      \<and> generate_png_from_puml os f (OUTPUT_IMG_DIR here) w = (Inr p, w1)
      \<and> generate_markdown_doc os (stem f) p (title (resolve_metadata (stem f) c))
           (description (resolve_metadata (stem f) c)) (OUTPUT_MD_DIR here) w1 = (Inl e, w2)
    \<longrightarrow> for_loop os here (f # fs) docs w out =
          for_loop os here fs docs w2
            (out @ [''Processing: '' @ stem f, ''  '' @ ARROW @ '' Generating PNG...'',
                    ''  '' @ CHECK @ '' Created: '' @ path_name p,
                    ''  '' @ ARROW @ '' Generating Markdown...'', error_line e, []]))
   \<and> (read_text os f w = Inr c
      \<and> generate_png_from_puml os f (OUTPUT_IMG_DIR here) w = (Inr p, w1)
      \<and> generate_markdown_doc os (stem f) p (title (resolve_metadata (stem f) c))
           (description (resolve_metadata (stem f) c)) (OUTPUT_MD_DIR here) w1 = (Inr m, w2)
    \<longrightarrow> for_loop os here (f # fs) docs w out =
          for_loop os here fs (docs @ [(stem f, title (resolve_metadata (stem f) c))]) w2
            (out @ [''Processing: '' @ stem f, ''  '' @ ARROW @ '' Generating PNG...'',
                    ''  '' @ CHECK @ '' Created: '' @ path_name p,
                    ''  '' @ ARROW @ '' Generating Markdown...'',
                    ''  '' @ CHECK @ '' Created: '' @ path_name m, []]))
   \<and> (sort (glob_puml os (PUML_DIR here) w) = files \<and> files \<noteq> []
      \<and> for_loop os here files [] w
           (banner @ [''Found '' @ str_nat (length files) @ '' PlantUML files'', []])
         = (Inr generated_docs, w3, out3)
    \<longrightarrow> main os here w =
          (case generate_index os generated_docs (OUTPUT_MD_DIR here) w3 of
             (Inl e, w4) \<Rightarrow> (Some e, w4, out3 @ [''Generating index...''])
           | (Inr index_path, w4) \<Rightarrow>
               (None, w4,
                out3 @ [''Generating index...''] @ summary here generated_docs index_path))
        \<and> summary here generated_docs index_path ! 4 =
            ''  - '' @ str_nat (length generated_docs) @ '' diagrams processed''
        \<and> length generated_docs + length (filter is_error_line out3) = length files
        \<and> subseq (map fst generated_docs) (map stem files))"
proof (intro conjI impI)
  assume "read_text os f w = Inr c
      \<and> generate_png_from_puml os f (OUTPUT_IMG_DIR here) w = (Inl e, w1)"
  then show "for_loop os here (f # fs) docs w out =
          for_loop os here fs docs w1
            (out @ [''Processing: '' @ stem f, ''  '' @ ARROW @ '' Generating PNG...'',
                    error_line e, []])"
    using loop_body_render_fails [of os f w c here e w1 docs out] by simp
next
  assume "read_text os f w = Inr c
      \<and> generate_png_from_puml os f (OUTPUT_IMG_DIR here) w = (Inr p, w1)
      \<and> generate_markdown_doc os (stem f) p (title (resolve_metadata (stem f) c))
           (description (resolve_metadata (stem f) c)) (OUTPUT_MD_DIR here) w1 = (Inl e, w2)"
  then show "for_loop os here (f # fs) docs w out =
          for_loop os here fs docs w2
            (out @ [''Processing: '' @ stem f, ''  '' @ ARROW @ '' Generating PNG...'',
                    ''  '' @ CHECK @ '' Created: '' @ path_name p,
                    ''  '' @ ARROW @ '' Generating Markdown...'', error_line e, []])"
    using loop_body_compose_fails [of os f w c here p w1 e w2 docs out] by simp
next
  assume "read_text os f w = Inr c
      \<and> generate_png_from_puml os f (OUTPUT_IMG_DIR here) w = (Inr p, w1)
      \<and> generate_markdown_doc os (stem f) p (title (resolve_metadata (stem f) c))
           (description (resolve_metadata (stem f) c)) (OUTPUT_MD_DIR here) w1 = (Inr m, w2)"
  then show "for_loop os here (f # fs) docs w out =
          for_loop os here fs (docs @ [(stem f, title (resolve_metadata (stem f) c))]) w2
            (out @ [''Processing: '' @ stem f, ''  '' @ ARROW @ '' Generating PNG...'',
                    ''  '' @ CHECK @ '' Created: '' @ path_name p,
                    ''  '' @ ARROW @ '' Generating Markdown...'',
                    ''  '' @ CHECK @ '' Created: '' @ path_name m, []])"
    using loop_body_succeeds [of os f w c here p w1 m w2 docs out] by simp
next
  assume a: "sort (glob_puml os (PUML_DIR here) w) = files \<and> files \<noteq> []
      \<and> for_loop os here files [] w
           (banner @ [''Found '' @ str_nat (length files) @ '' PlantUML files'', []])
         = (Inr generated_docs, w3, out3)"
  then show "main os here w =
          (case generate_index os generated_docs (OUTPUT_MD_DIR here) w3 of
             (Inl e, w4) \<Rightarrow> (Some e, w4, out3 @ [''Generating index...''])
           | (Inr index_path, w4) \<Rightarrow>
               (None, w4,
                out3 @ [''Generating index...''] @ summary here generated_docs index_path))"
    by (simp add: main_def Let_def)
next
  show "summary here generated_docs index_path ! 4 =
            ''  - '' @ str_nat (length generated_docs) @ '' diagrams processed''"
    by (simp add: summary_def)
next
  assume a: "sort (glob_puml os (PUML_DIR here) w) = files \<and> files \<noteq> []
      \<and> for_loop os here files [] w
           (banner @ [''Found '' @ str_nat (length files) @ '' PlantUML files'', []])
         = (Inr generated_docs, w3, out3)"
  then have l: "for_loop os here files [] w
           (banner @ [''Found '' @ str_nat (length files) @ '' PlantUML files'', []])
         = (Inr generated_docs, w3, out3)" by (elim conjE)
  from for_loop_returns [OF l] obtain new lines where
    n: "generated_docs = [] @ new"
       "out3 = (banner @ [''Found '' @ str_nat (length files) @ '' PlantUML files'', []]) @ lines"
       "length new + length (filter is_error_line lines) = length files"
       "subseq (map fst new) (map stem files)"
    by (elim exE conjE)
  have "filter is_error_line out3 = filter is_error_line lines"
    unfolding n(2) filter_append banner_no_error by simp
  with n(1,3) show "length generated_docs + length (filter is_error_line out3) = length files"
    by simp
  from n(1,4) show "subseq (map fst generated_docs) (map stem files)"
    by simp
qed

lemmas run_defs =
  loop_body_def generate_png_from_puml_def generate_markdown_doc_def generate_index_def
  resolve_metadata_def DIAGRAM_DESCRIPTIONS_def extract_title_from_puml_def match_here_def
  isspace_def strip_def newline_def stub_os_def Let_def

lemma loop_partial_failure_demo:
  "for_loop (stub_os demo_renderer []) demo_here [demo_source ''beta-sequence''] [] demo_files []
     = (Inr [], demo_files,
        [''Processing: beta-sequence'', ''  '' @ ARROW @ '' Generating PNG...'',
         error_line (RuntimeError ''PlantUML conversion failed: syntax error''), []])
   \<and> fst (for_loop
          ((stub_os demo_renderer [])
             \<lparr>write_text := \<lambda>p s w. (Some (OtherException ''PermissionError'' (path_str p)), w)\<rparr>)
          demo_here [demo_source ''alpha-architecture''] [] demo_files [])
     = Inr []
   \<and> fst (for_loop (stub_os demo_renderer []) demo_here
            [demo_source ''alpha-architecture'', demo_source ''beta-sequence'',
             demo_source ''gamma-unrelated''] [] demo_files
            (banner @ [''Found '' @ str_nat 3 @ '' PlantUML files'', []]))
     = Inr [(''alpha-architecture'', ''Alpha''), (''gamma-unrelated'', ''Untitled Diagram'')]
   \<and> length (filter is_error_line (snd (snd (for_loop (stub_os demo_renderer []) demo_here
            [demo_source ''alpha-architecture'', demo_source ''beta-sequence'',
             demo_source ''gamma-unrelated''] [] demo_files
            (banner @ [''Found '' @ str_nat 3 @ '' PlantUML files'', []]))))) = 1
   \<and> fst (main (stub_os demo_renderer []) demo_here demo_files) = None
   \<and> map_of (fst (snd (main (stub_os demo_renderer []) demo_here demo_files)))
        (demo_md ''README'') = Some index_content
   \<and> summary demo_here
        [(''alpha-architecture'', ''Alpha''), (''gamma-unrelated'', ''Untitled Diagram'')]
        (demo_md ''README'') ! 4 = ''  - 2 diagrams processed''"
proof -
  let ?os = "stub_os demo_renderer []"
  let ?ro = "?os\<lparr>write_text := \<lambda>p s w. (Some (OtherException ''PermissionError'' (path_str p)), w)\<rparr>"
  let ?a = "demo_source ''alpha-architecture''"
  let ?b = "demo_source ''beta-sequence''"
  let ?g = "demo_source ''gamma-unrelated''"
  let ?files = "[?a, ?b, ?g]"
  let ?B = "banner @ [''Found '' @ str_nat 3 @ '' PlantUML files'', []]"
  let ?docs = "[(''alpha-architecture'', ''Alpha''), (''gamma-unrelated'', ''Untitled Diagram'')]"
  \<comment> \<open>the renderer fails on beta\<close>
  have b: "read_text ?os ?b demo_files = Inr ''title Beta''
      \<and> generate_png_from_puml ?os ?b (OUTPUT_IMG_DIR demo_here) demo_files
          = (Inl (RuntimeError ''PlantUML conversion failed: syntax error''), demo_files)"
    by (simp add: run_defs demo_defs path_defs)
  from loop_partial_failure [where os = ?os and f = ?b and w = demo_files and c = "''title Beta''"
        and here = demo_here and e = "RuntimeError ''PlantUML conversion failed: syntax error''"
        and ?w1.0 = demo_files and fs = "[]" and docs = "[]" and out = "[]",
        THEN conjunct1, THEN mp, OF b]
  have 1: "for_loop ?os demo_here [?b] [] demo_files []
     = (Inr [], demo_files,
        [''Processing: beta-sequence'', ''  '' @ ARROW @ '' Generating PNG...'',
         error_line (RuntimeError ''PlantUML conversion failed: syntax error''), []])"
    by (simp add: demo_defs path_defs)
  \<comment> \<open>the page of alpha cannot be written\<close>
  let ?w1 = "(demo_png ''alpha-architecture'', ''PNG'') # demo_files"
  let ?e = "OtherException ''PermissionError'' ''/docs/plantuml/md/alpha-architecture.md''"
  have c: "read_text ?ro ?a demo_files = Inr ''title Alpha''
      \<and> generate_png_from_puml ?ro ?a (OUTPUT_IMG_DIR demo_here) demo_files
          = (Inr (demo_png ''alpha-architecture''), ?w1)
      \<and> generate_markdown_doc ?ro (stem ?a) (demo_png ''alpha-architecture'')
           (title (resolve_metadata (stem ?a) ''title Alpha''))
           (description (resolve_metadata (stem ?a) ''title Alpha'')) (OUTPUT_MD_DIR demo_here) ?w1
          = (Inl ?e, ?w1)"
    by (simp add: run_defs demo_defs path_defs)
  from loop_partial_failure [where os = ?ro and f = ?a and w = demo_files and c = "''title Alpha''"
        and here = demo_here and fs = "[]" and docs = "[]" and out = "[]"
        and p = "demo_png ''alpha-architecture''" and ?w1.0 = ?w1 and e = ?e and ?w2.0 = ?w1,
        THEN conjunct2, THEN conjunct1, THEN mp, OF c]
  have 2: "fst (for_loop ?ro demo_here [?a] [] demo_files []) = Inr []"
    by simp
  \<comment> \<open>the whole run\<close>
  have s: "sort (glob_puml ?os (PUML_DIR demo_here) demo_files) = ?files"
    by (simp add: stub_os_def demo_defs path_defs suffix_def)
  have d: "fst (for_loop ?os demo_here ?files [] demo_files ?B) = Inr ?docs"
    by (simp add: run_defs demo_defs path_defs)
  obtain w3 out3 where l: "for_loop ?os demo_here ?files [] demo_files ?B = (Inr ?docs, w3, out3)"
    using d by (cases "for_loop ?os demo_here ?files [] demo_files ?B") simp
  have 3: "str_nat 3 = str_nat (length ?files)"
    by (simp add: numeral_3_eq_3)
  have h: "sort (glob_puml ?os (PUML_DIR demo_here) demo_files) = ?files \<and> ?files \<noteq> []
      \<and> for_loop ?os demo_here ?files [] demo_files
            (banner @ [''Found '' @ str_nat (length ?files) @ '' PlantUML files'', []])
          = (Inr ?docs, w3, out3)"
    unfolding 3 [symmetric] by (intro conjI; (fact s | fact l | simp))
  note t = loop_partial_failure [where os = ?os and w = demo_files and here = demo_here
        and files = ?files and generated_docs = ?docs and ?w3.0 = w3 and ?out3.0 = out3
        and index_path = "demo_md ''README''",
        THEN conjunct2, THEN conjunct2, THEN conjunct2, THEN mp, OF h]
  have gi: "generate_index ?os ?docs (OUTPUT_MD_DIR demo_here) w3
              = (Inr (demo_md ''README''), (demo_md ''README'', index_content) # w3)"
    by (simp add: generate_index_def stub_os_def Let_def demo_defs path_defs)
  from t gi have m: "main ?os demo_here demo_files
      = (None, (demo_md ''README'', index_content) # w3,
         out3 @ [''Generating index...''] @ summary demo_here ?docs (demo_md ''README''))"
    by simp
  from t have 4: "length (filter is_error_line out3) = 1"
    by simp
  from t have 7: "summary demo_here ?docs (demo_md ''README'') ! 4 = ''  - 2 diagrams processed''"
    by (simp add: str_nat.simps digit_char_def)
  have o3: "snd (snd (for_loop ?os demo_here ?files [] demo_files ?B)) = out3"
    by (simp only: l snd_conv)
  have e4: "length (filter is_error_line
              (snd (snd (for_loop ?os demo_here ?files [] demo_files ?B)))) = 1"
    unfolding o3 by (rule 4)
  from m have 5: "fst (main ?os demo_here demo_files) = None" by simp
  from m have 6: "map_of (fst (snd (main ?os demo_here demo_files))) (demo_md ''README'')
      = Some index_content" by simp
  from 1 2 d e4 5 6 7 show ?thesis
    by (intro conjI)
qed

section \<open>The index on a fresh tree\<close>

text \<open>
  The index composer is called outside the \<^verbatim>\<open>try\<close>: when its write raises, the
  exception leaves \<^verbatim>\<open>main\<close> and nothing is printed after \<^verbatim>\<open>Generating index...\<close>.
\<close>

lemma index_failure_leaves_main:
  assumes "sort (glob_puml os (PUML_DIR here) w) = files" and "files \<noteq> []"
    and "for_loop os here files [] w
           (banner @ [''Found '' @ str_nat (length files) @ '' PlantUML files'', []])
         = (Inr generated_docs, w3, out3)"
    and "write_text os (joinpath (OUTPUT_MD_DIR here) ''README.md'') index_content w3 = (Some e, w4)"
  shows "main os here w = (Some e, w4, out3 @ [''Generating index...''])"
  using assms by (simp add: main_def generate_index_def Let_def)

text \<open>
  Claim C1 asks that a failed diagram is caught, logged and skipped, that the index is
  composed after the loop whatever happened, also when no diagram succeeded, and that
  the summary with the count is printed. The code breaks the last two parts:
  \<^verbatim>\<open>generate_index\<close> writes \<^verbatim>\<open>md/README.md\<close> without making the directory
  \<^verbatim>\<open>md\<close>, which \<^verbatim>\<open>generate_markdown_doc\<close> alone makes, after a successful render.
  On a fresh tree whose one source the renderer rejects, the exception of the render
  step is caught and logged, the list stays empty, and the write of the index raises
  \<^verbatim>\<open>FileNotFoundError\<close>, which leaves \<^verbatim>\<open>main\<close>: the world holds no index, the
  directory \<^verbatim>\<open>md\<close> does not exist, and the last line printed is
  \<^verbatim>\<open>Generating index...\<close>, with no summary. On the same tree with a source that
  renders, \<^verbatim>\<open>main\<close> returns normally.
\<close>

theorem index_write_fails_on_fresh_tree:
  "main (tree_os demo_renderer) demo_here fresh_tree =
     (Some (no_such_file (demo_md ''README'')),
      (fst fresh_tree, prefixes (OUTPUT_IMG_DIR demo_here) @ snd fresh_tree),
      banner @
      [''Found 1 PlantUML files'', [],
       ''Processing: beta-sequence'',
       ''  '' @ ARROW @ '' Generating PNG...'',
       error_line (RuntimeError ''PlantUML conversion failed: syntax error''), [],
       ''Generating index...''])
   \<and> map_of (fst fresh_tree) (demo_md ''README'') = None
   \<and> OUTPUT_MD_DIR demo_here \<notin> set (prefixes (OUTPUT_IMG_DIR demo_here) @ snd fresh_tree)
   \<and> fst (main (tree_os demo_renderer) demo_here
             ([(demo_source ''alpha-architecture'', ''title Alpha'')], snd fresh_tree)) = None"
proof -
  let ?os = "tree_os demo_renderer"
  let ?b = "demo_source ''beta-sequence''"
  let ?a = "demo_source ''alpha-architecture''"
  have s: "sort (glob_puml ?os (PUML_DIR demo_here) fresh_tree) = [?b]"
    by (simp add: tree_os_def fresh_tree_def demo_defs path_defs suffix_def)
  have n: "str_nat (length [?b]) = ''1''"
    by (simp add: str_nat.simps digit_char_def)
  have l: "for_loop ?os demo_here [?b] [] fresh_tree
             (banner @ [''Found '' @ str_nat (length [?b]) @ '' PlantUML files'', []])
      = (Inr [], (fst fresh_tree, prefixes (OUTPUT_IMG_DIR demo_here) @ snd fresh_tree),
         (banner @ [''Found '' @ str_nat (length [?b]) @ '' PlantUML files'', []]) @
         [''Processing: beta-sequence'',
          ''  '' @ ARROW @ '' Generating PNG...'',
          error_line (RuntimeError ''PlantUML conversion failed: syntax error''), []])"
    by (simp add: run_defs tree_os_def fresh_tree_def demo_defs path_defs)
  have g: "generate_index ?os [] (OUTPUT_MD_DIR demo_here)
             (fst fresh_tree, prefixes (OUTPUT_IMG_DIR demo_here) @ snd fresh_tree)
      = (Inl (no_such_file (demo_md ''README'')),
         (fst fresh_tree, prefixes (OUTPUT_IMG_DIR demo_here) @ snd fresh_tree))"
    by (simp add: generate_index_def tree_os_def fresh_tree_def demo_defs path_defs Let_def)
  have 1: "main ?os demo_here fresh_tree =
     (Some (no_such_file (demo_md ''README'')),
      (fst fresh_tree, prefixes (OUTPUT_IMG_DIR demo_here) @ snd fresh_tree),
      banner @
      [''Found 1 PlantUML files'', [],
       ''Processing: beta-sequence'',
       ''  '' @ ARROW @ '' Generating PNG...'',
       error_line (RuntimeError ''PlantUML conversion failed: syntax error''), [],
       ''Generating index...''])"
    unfolding main_def Let_def s using l g n by simp
  have 2: "map_of (fst fresh_tree) (demo_md ''README'') = None"
    by (simp add: fresh_tree_def demo_defs)
  have 3: "OUTPUT_MD_DIR demo_here \<notin> set (prefixes (OUTPUT_IMG_DIR demo_here) @ snd fresh_tree)"
    by (simp add: fresh_tree_def demo_defs path_defs)
  have 4: "fst (main ?os demo_here ([(?a, ''title Alpha'')], snd fresh_tree)) = None"
    by (simp add: main_def for_loop.simps run_defs tree_os_def fresh_tree_def demo_defs
        path_defs suffix_def)
  from 1 2 3 4 show ?thesis
    by (intro conjI)
qed

section \<open>A source that cannot be read\<close>

text \<open>
  Claim C9. Reading the source text happens before the \<^verbatim>\<open>try\<close>: when the read of a
  source raises, after the sources before it have been processed, the exception leaves
  the loop and leaves \<^verbatim>\<open>main\<close>. The world is the one the earlier sources left, and
  the last line printed is the \<^verbatim>\<open>Processing:\<close> line of that source: no later source
  is processed, the index composer is not called and no summary is printed.
\<close>

theorem read_failure_aborts:
  "(read_text os f w1 = Inl e
      \<and> for_loop os here pre docs w out = (Inr docs1, w1, out1)
    \<longrightarrow> for_loop os here (pre @ f # post) docs w out =
          (Inl e, w1, out1 @ [''Processing: '' @ stem f]))
   \<and> (sort (glob_puml os (PUML_DIR here) w) = pre @ f # post
      \<and> read_text os f w1 = Inl e
      \<and> for_loop os here pre [] w
           (banner @ [''Found '' @ str_nat (length (pre @ f # post)) @ '' PlantUML files'', []])
         = (Inr docs1, w1, out1)
    \<longrightarrow> main os here w = (Some e, w1, out1 @ [''Processing: '' @ stem f]))"
proof -
  have A: "for_loop os here (pre @ f # post) docs w out =
          (Inl e, w1, out1 @ [''Processing: '' @ stem f])"
    if "read_text os f w1 = Inl e" "for_loop os here pre docs w out = (Inr docs1, w1, out1)"
    for docs out docs1 out1
    using that loop_body_read_fails [of os f w1 e here docs1 out1]
    by (simp add: for_loop_append)
  have B: "main os here w = (Some e, w1, out1 @ [''Processing: '' @ stem f])"
    if s: "sort (glob_puml os (PUML_DIR here) w) = pre @ f # post"
      and r: "read_text os f w1 = Inl e"
      and l: "for_loop os here pre [] w
           (banner @ [''Found '' @ str_nat (length (pre @ f # post)) @ '' PlantUML files'', []])
         = (Inr docs1, w1, out1)"
  proof -
    have "pre @ f # post \<noteq> []" by simp
    with A [OF r l] s show ?thesis
      unfolding main_def Let_def by (simp only: if_False prod.case sum.case)
  qed
  from A B show ?thesis by blast
qed

theorem read_failure_aborts_witness:
  "for_loop (stub_os demo_renderer [demo_source ''beta-sequence'']) demo_here
      [demo_source ''beta-sequence'', demo_source ''gamma-unrelated''] [] demo_files []
     = (Inl (OtherException ''PermissionError'' ''/docs/plantuml/puml/beta-sequence.puml''),
        demo_files, [''Processing: beta-sequence''])
   \<and> fst (main (stub_os demo_renderer [demo_source ''beta-sequence'']) demo_here demo_files)
     = Some (OtherException ''PermissionError'' ''/docs/plantuml/puml/beta-sequence.puml'')
   \<and> map fst (fst (snd (main (stub_os demo_renderer [demo_source ''beta-sequence''])
                            demo_here demo_files)))
     = [demo_md ''alpha-architecture'', demo_png ''alpha-architecture'',
        demo_source ''gamma-unrelated'', demo_source ''beta-sequence'',
        demo_source ''alpha-architecture'']"
proof -
  let ?os = "stub_os demo_renderer [demo_source ''beta-sequence'']"
  let ?a = "demo_source ''alpha-architecture''"
  let ?b = "demo_source ''beta-sequence''"
  let ?g = "demo_source ''gamma-unrelated''"
  let ?e = "OtherException ''PermissionError'' ''/docs/plantuml/puml/beta-sequence.puml''"
  let ?B = "banner @ [''Found '' @ str_nat (length ([?a] @ ?b # [?g])) @ '' PlantUML files'', []]"
  let ?w1 = "[(demo_md ''alpha-architecture'',
               markdown_content ''alpha-architecture'' (demo_png ''alpha-architecture'') ''Alpha''
                 ''Documentation for Alpha.'' (OUTPUT_MD_DIR demo_here)),
              (demo_png ''alpha-architecture'', ''PNG'')] @ demo_files"
  have r0: "read_text ?os ?b demo_files = Inl ?e
      \<and> for_loop ?os demo_here [] [] demo_files [] = (Inr [], demo_files, [])"
    by (simp add: stub_os_def demo_defs path_defs)
  from read_failure_aborts [where os = ?os and f = ?b and ?w1.0 = demo_files and e = ?e
        and here = demo_here and pre = "[]" and docs = "[]" and w = demo_files and out = "[]"
        and ?docs1.0 = "[]" and ?out1.0 = "[]" and post = "[?g]",
        THEN conjunct1, THEN mp, OF r0]
  have 1: "for_loop ?os demo_here [?b, ?g] [] demo_files []
     = (Inl ?e, demo_files, [''Processing: beta-sequence''])"
    by (simp add: demo_defs path_defs)
  have s: "sort (glob_puml ?os (PUML_DIR demo_here) demo_files) = [?a] @ ?b # [?g]"
    by (simp add: stub_os_def demo_defs path_defs suffix_def)
  have d: "fst (for_loop ?os demo_here [?a] [] demo_files ?B) = Inr [(''alpha-architecture'', ''Alpha'')]"
    by (simp add: run_defs demo_defs path_defs)
  have w: "fst (snd (for_loop ?os demo_here [?a] [] demo_files ?B)) = ?w1"
    by (simp add: run_defs demo_defs path_defs)
  obtain out1 where l: "for_loop ?os demo_here [?a] [] demo_files ?B
      = (Inr [(''alpha-architecture'', ''Alpha'')], ?w1, out1)"
    using d w by (cases "for_loop ?os demo_here [?a] [] demo_files ?B") simp
  have r: "read_text ?os ?b ?w1 = Inl ?e"
    by (simp add: stub_os_def demo_defs path_defs)
  have h: "sort (glob_puml ?os (PUML_DIR demo_here) demo_files) = [?a] @ ?b # [?g]
      \<and> read_text ?os ?b ?w1 = Inl ?e
      \<and> for_loop ?os demo_here [?a] [] demo_files ?B
          = (Inr [(''alpha-architecture'', ''Alpha'')], ?w1, out1)"
    by (intro conjI; (fact s | fact r | fact l))
  from read_failure_aborts [where os = ?os and here = demo_here and w = demo_files
        and pre = "[?a]" and f = ?b and post = "[?g]" and ?w1.0 = ?w1 and e = ?e
        and ?docs1.0 = "[(''alpha-architecture'', ''Alpha'')]" and ?out1.0 = out1,
        THEN conjunct2, THEN mp, OF h]
  have m: "main ?os demo_here demo_files = (Some ?e, ?w1, out1 @ [''Processing: '' @ stem ?b])" .
  from m have 2: "fst (main ?os demo_here demo_files) = Some ?e"
    by simp
  from m have 3: "map fst (fst (snd (main ?os demo_here demo_files)))
     = [demo_md ''alpha-architecture'', demo_png ''alpha-architecture'', ?g, ?b, ?a]"
    by (simp add: demo_files_def)
  from 1 2 3 show ?thesis
    by (intro conjI)
qed

section \<open>Titles can be empty\<close>

text \<open>
  Claim C7 asks for a non-empty title and a non-empty description for every diagram.
  The code breaks it: the group \<^verbatim>\<open>(.+)\<close> needs one character, but that character may be
  a blank which \<^verbatim>\<open>strip()\<close> then removes. On the source text \<^verbatim>\<open>title\<close> followed by two
  blanks, for a diagram name without a table entry, the extractor returns the empty
  string and the resolved title is empty.
\<close>

theorem empty_title_failing_input:
  "''blank-title'' \<notin> fst ` set DIAGRAM_DESCRIPTIONS
   \<and> extract_title_from_puml ''title  '' = []
   \<and> resolve_metadata ''blank-title'' ''title  ''
       = \<lparr>title = [], description = ''Documentation for .''\<rparr>"
  by (simp add: resolve_metadata_def DIAGRAM_DESCRIPTIONS_def extract_title_from_puml_def
      match_here_def isspace_def strip_def newline_def)

text \<open>What does hold: the description is never empty.\<close>

lemma append_nonempty:
  "a \<noteq> [] \<Longrightarrow> a @ b \<noteq> []"
  by simp

lemma descriptions_nonempty:
  "description_backend_architecture \<noteq> []"
  "description_class_diagram \<noteq> []"
  "description_sequence_diagram \<noteq> []"
  "description_deployment_diagram \<noteq> []"
  "description_database_schema \<noteq> []"
  "description_service_interfaces \<noteq> []"
  "description_prediction_flow_detailed \<noteq> []"
  "description_model_deployment_flow \<noteq> []"
  "description_ingestion_sequence \<noteq> []"
  "description_feature_pipeline \<noteq> []"
  "description_data_ingestion_workflow \<noteq> []"
  unfolding description_backend_architecture_def
    description_class_diagram_def
    description_sequence_diagram_def
    description_deployment_diagram_def
    description_database_schema_def
    description_service_interfaces_def
    description_prediction_flow_detailed_def
    description_model_deployment_flow_def
    description_ingestion_sequence_def
    description_feature_pipeline_def
    description_data_ingestion_workflow_def
  by (rule append_nonempty, simp)+

lemma table_descriptions_nonempty:
  "map_of DIAGRAM_DESCRIPTIONS n = Some m \<Longrightarrow> title m \<noteq> [] \<and> description m \<noteq> []"
  unfolding DIAGRAM_DESCRIPTIONS_def
  by (auto simp: descriptions_nonempty split: if_splits)

lemma resolved_description_nonempty:
  "description (resolve_metadata n c) \<noteq> []"
proof (cases "map_of DIAGRAM_DESCRIPTIONS n")
  case None
  then show ?thesis by (simp add: resolve_metadata_def Let_def)
next
  case (Some m)
  with table_descriptions_nonempty [OF Some] show ?thesis
    by (simp add: resolve_metadata_def Let_def)
qed

end
